theory Spec2Isabelle
  imports Complex_Main "HOL-Library.Multiset" "HOL-Library.Log_Nat"
begin

section \<open>The schedule service of the school administration front-end\<close>

text \<open>
  A shallow embedding of \<^verbatim>\<open>src/app/services/schedule.service.ts\<close>: the catalogs
  \<^verbatim>\<open>TIME_SLOTS\<close> and \<^verbatim>\<open>DAYS_OF_WEEK\<close>, and the methods
  \<^verbatim>\<open>formatWeeklyGrid\<close>, \<^verbatim>\<open>validateScheduleData\<close>,
  \<^verbatim>\<open>getScheduleStatistics\<close> (the function it maps over the fetched list) and
  \<^verbatim>\<open>calculateDuration\<close>.

  Strings are lists of code units; every string literal of the source has code units
  below 256, so a \<^typ>\<open>char\<close> stands for one code unit.
\<close>

subsection \<open>Values of the language\<close>

text \<open>
  A \<^verbatim>\<open>number\<close> is an IEEE 754 double: not-a-number, an infinity, or a finite
  value, which is a rational. The two zeros are not told apart (nothing here divides
  by a computed zero or inspects a sign of zero).
\<close>

datatype jsnumber = NaN | PInf | NInf | Fin rat

text \<open>
  An optional property \<^verbatim>\<open>k?: T\<close> of a payload: the key is missing, or it is
  there and holds \<^verbatim>\<open>undefined\<close>, or it holds a value.
\<close>

datatype 'a property = Absent | Undefined | Val 'a

text \<open>\<^verbatim>\<open>'k' in obj\<close>\<close>

definition has_key :: "'a property \<Rightarrow> bool" where
  "has_key p = (case p of Absent \<Rightarrow> False | _ \<Rightarrow> True)"

text \<open>Truthiness of a number or of a string read from a property (ToBoolean).\<close>

fun number_truthy :: "jsnumber property \<Rightarrow> bool" where
  "number_truthy (Val NaN) = False"
| "number_truthy (Val (Fin q)) = (q \<noteq> 0)"
| "number_truthy (Val PInf) = True"
| "number_truthy (Val NInf) = True"
| "number_truthy Undefined = False"
| "number_truthy Absent = False"

fun string_truthy :: "string property \<Rightarrow> bool" where
  "string_truthy (Val s) = (s \<noteq> [])"
| "string_truthy Undefined = False"
| "string_truthy Absent = False"

text \<open>\<^verbatim>\<open>x <= 0\<close> for a property read as a number; \<^verbatim>\<open>undefined\<close> converts to NaN.\<close>

fun number_le_zero :: "jsnumber property \<Rightarrow> bool" where
  "number_le_zero (Val NaN) = False"
| "number_le_zero (Val (Fin q)) = (q \<le> 0)"
| "number_le_zero (Val PInf) = False"
| "number_le_zero (Val NInf) = True"
| "number_le_zero Undefined = False"
| "number_le_zero Absent = False"

text \<open>
  The relational operators on two strings compare code units from the left; a proper
  prefix is smaller.
\<close>

fun string_lt :: "string \<Rightarrow> string \<Rightarrow> bool" where
  "string_lt [] [] = False"
| "string_lt [] (y # ys) = True"
| "string_lt (x # xs) [] = False"
| "string_lt (x # xs) (y # ys) =
     ((of_char x :: nat) < of_char y \<or> (x = y \<and> string_lt xs ys))"

definition string_ge :: "string \<Rightarrow> string \<Rightarrow> bool" where
  "string_ge a b = (\<not> string_lt a b)"

subsection \<open>Interfaces and catalogs\<close>

text \<open>
  The identifiers of a record are the keys the server gave: integers. The two optional
  fields are there or not.
\<close>

record Schedule =
  sched_id :: int
  class_id :: int
  class_name :: string
  teacher_id :: int
  teacher_name :: string
  subject_id :: int
  subject_name :: string
  day_of_week :: string
  start_time :: string
  end_time :: string
  academic_year :: string
  semester :: string
  created_at :: "string option"
  updated_at :: "string option"

text \<open>
  \<^verbatim>\<open>CreateScheduleRequest | UpdateScheduleRequest\<close>: every field may be missing
  (the update request), and the validator asks for each key with \<^verbatim>\<open>in\<close>.
\<close>

record ScheduleRequest =
  req_class_id :: "jsnumber property"
  req_teacher_id :: "jsnumber property"
  req_subject_id :: "jsnumber property"
  req_day_of_week :: "string property"
  req_start_time :: "string property"
  req_end_time :: "string property"
  req_academic_year :: "string property"
  req_semester :: "string property"

record TimeSlot =
  slot_start_time :: string
  slot_end_time :: string
  slot_label :: string

record Day =
  day_value :: string
  day_label :: string

definition TIME_SLOTS :: "TimeSlot list" where
  "TIME_SLOTS =
    [\<lparr>slot_start_time = ''08:00'', slot_end_time = ''10:00'', slot_label = ''08h00 - 10h00''\<rparr>,
     \<lparr>slot_start_time = ''10:15'', slot_end_time = ''12:15'', slot_label = ''10h15 - 12h15''\<rparr>,
     \<lparr>slot_start_time = ''14:00'', slot_end_time = ''16:00'', slot_label = ''14h00 - 16h00''\<rparr>,
     \<lparr>slot_start_time = ''16:15'', slot_end_time = ''18:15'', slot_label = ''16h15 - 18h15''\<rparr>]"

definition DAYS_OF_WEEK :: "Day list" where
  "DAYS_OF_WEEK =
    [\<lparr>day_value = ''MONDAY'', day_label = ''Lundi''\<rparr>,
     \<lparr>day_value = ''TUESDAY'', day_label = ''Mardi''\<rparr>,
     \<lparr>day_value = ''WEDNESDAY'', day_label = ''Mercredi''\<rparr>,
     \<lparr>day_value = ''THURSDAY'', day_label = ''Jeudi''\<rparr>,
     \<lparr>day_value = ''FRIDAY'', day_label = ''Vendredi''\<rparr>,
     \<lparr>day_value = ''SATURDAY'', day_label = ''Samedi''\<rparr>]"

subsection \<open>validateScheduleData\<close>

record Validation =
  isValid :: bool
  errors :: "string list"

definition MSG_CLASS :: string where
  "MSG_CLASS = ''La classe est obligatoire''"

definition MSG_TEACHER :: string where
  "MSG_TEACHER = ''L'' @ [CHR 0x27] @ ''enseignant est obligatoire''"

definition MSG_SUBJECT :: string where
  "MSG_SUBJECT = ''La mati'' @ [CHR 0xE8] @ ''re est obligatoire''"

definition MSG_DAY :: string where
  "MSG_DAY = ''Jour de la semaine invalide''"

definition MSG_TIME :: string where
  "MSG_TIME = ''L'' @ [CHR 0x27] @ ''heure de fin doit '' @ [CHR 0xEA] @ ''tre apr''
     @ [CHR 0xE8] @ ''s l'' @ [CHR 0x27] @ ''heure de d'' @ [CHR 0xE9] @ ''but''"

definition MSG_YEAR :: string where
  "MSG_YEAR = ''Format d'' @ [CHR 0x27] @ ''ann'' @ [CHR 0xE9] @ ''e acad'' @ [CHR 0xE9]
     @ ''mique invalide (YYYY-YYYY)''"

definition MSG_SEMESTER :: string where
  "MSG_SEMESTER = ''Semestre invalide (S1 ou S2)''"

text \<open>\<^verbatim>\<open>errors.push(msg)\<close>\<close>

definition push :: "string list \<Rightarrow> string \<Rightarrow> string list" where
  "push errs msg = errs @ [msg]"

text \<open>\<^verbatim>\<open>this.DAYS_OF_WEEK.find(d => d.value === x)\<close>, for \<^verbatim>\<open>x\<close> read from a property.\<close>

definition find_day :: "string property \<Rightarrow> Day option" where
  "find_day x = List.find (\<lambda>d. Val (day_value d) = x) DAYS_OF_WEEK"

text \<open>\<^verbatim>\<open>/^\d{4}-\d{4}$/.test(s)\<close>: four ASCII digits, a hyphen, four ASCII digits.\<close>

definition is_digit :: "char \<Rightarrow> bool" where
  "is_digit c = (48 \<le> (of_char c :: nat) \<and> (of_char c :: nat) \<le> 57)"

definition yearPattern_test :: "string \<Rightarrow> bool" where
  "yearPattern_test s =
     (length s = 9 \<and> list_all is_digit (take 4 s) \<and> s ! 4 = CHR ''-''
      \<and> list_all is_digit (drop 5 s))"

text \<open>The seven conditions of the method, in the order of the source.\<close>

definition class_id_rejected :: "ScheduleRequest \<Rightarrow> bool" where
  "class_id_rejected d =
     (has_key (req_class_id d)
      \<and> (\<not> number_truthy (req_class_id d) \<or> number_le_zero (req_class_id d)))"

definition teacher_id_rejected :: "ScheduleRequest \<Rightarrow> bool" where
  "teacher_id_rejected d =
     (has_key (req_teacher_id d)
      \<and> (\<not> number_truthy (req_teacher_id d) \<or> number_le_zero (req_teacher_id d)))"

definition subject_id_rejected :: "ScheduleRequest \<Rightarrow> bool" where
  "subject_id_rejected d =
     (has_key (req_subject_id d)
      \<and> (\<not> number_truthy (req_subject_id d) \<or> number_le_zero (req_subject_id d)))"

definition day_of_week_rejected :: "ScheduleRequest \<Rightarrow> bool" where
  "day_of_week_rejected d =
     (has_key (req_day_of_week d) \<and> find_day (req_day_of_week d) = None)"

definition times_rejected :: "ScheduleRequest \<Rightarrow> bool" where
  "times_rejected d =
     (if has_key (req_start_time d) \<and> has_key (req_end_time d) then
        (if string_truthy (req_start_time d) \<and> string_truthy (req_end_time d) then
           (case (req_start_time d, req_end_time d) of
              (Val a, Val b) \<Rightarrow> string_ge a b
            | _ \<Rightarrow> False)
         else False)
      else False)"

definition academic_year_rejected :: "ScheduleRequest \<Rightarrow> bool" where
  "academic_year_rejected d =
     (if has_key (req_academic_year d) \<and> string_truthy (req_academic_year d) then
        (case req_academic_year d of Val s \<Rightarrow> \<not> yearPattern_test s | _ \<Rightarrow> False)
      else False)"

definition semester_rejected :: "ScheduleRequest \<Rightarrow> bool" where
  "semester_rejected d =
     (if has_key (req_semester d) \<and> string_truthy (req_semester d) then
        (case req_semester d of Val s \<Rightarrow> s \<notin> set [''S1'', ''S2''] | _ \<Rightarrow> False)
      else False)"

text \<open>
  The method: one array, seven conditional pushes one after the other, and the result
  object built from the array.
\<close>

definition validateScheduleData :: "ScheduleRequest \<Rightarrow> Validation" where
  "validateScheduleData d =
     (let e0 = [];
          e1 = (if class_id_rejected d then push e0 MSG_CLASS else e0);
          e2 = (if teacher_id_rejected d then push e1 MSG_TEACHER else e1);
          e3 = (if subject_id_rejected d then push e2 MSG_SUBJECT else e2);
          e4 = (if day_of_week_rejected d then push e3 MSG_DAY else e3);
          e5 = (if times_rejected d then push e4 MSG_TIME else e4);
          e6 = (if academic_year_rejected d then push e5 MSG_YEAR else e5);
          e7 = (if semester_rejected d then push e6 MSG_SEMESTER else e6)
      in \<lparr>isValid = (length e7 = 0), errors = e7\<rparr>)"

text \<open>The payload \<^verbatim>\<open>{}\<close>.\<close>

definition empty_request :: ScheduleRequest where
  "empty_request =
     \<lparr>req_class_id = Absent, req_teacher_id = Absent, req_subject_id = Absent,
      req_day_of_week = Absent, req_start_time = Absent, req_end_time = Absent,
      req_academic_year = Absent, req_semester = Absent\<rparr>"

text \<open>
  The method once more, as a list of its seven conditions with their messages in the
  order of the source; the proofs go through this form.
\<close>

definition pushes :: "((ScheduleRequest \<Rightarrow> bool) \<times> string) list" where
  "pushes =
     [(class_id_rejected, MSG_CLASS), (teacher_id_rejected, MSG_TEACHER),
      (subject_id_rejected, MSG_SUBJECT), (day_of_week_rejected, MSG_DAY),
      (times_rejected, MSG_TIME), (academic_year_rejected, MSG_YEAR),
      (semester_rejected, MSG_SEMESTER)]"

text \<open>
  The words of the specification for the three reference fields (a positive integer),
  and what the condition \<^verbatim>\<open>!x || x <= 0\<close> lets through (a positive number).
\<close>

fun positive_integer :: "jsnumber property \<Rightarrow> bool" where
  "positive_integer (Val (Fin q)) = (0 < q \<and> of_int \<lfloor>q\<rfloor> = q)"
| "positive_integer _ = False"

fun positive_number :: "jsnumber property \<Rightarrow> bool" where
  "positive_number (Val (Fin q)) = (0 < q)"
| "positive_number (Val PInf) = True"
| "positive_number _ = False"

text \<open>
  The rules in the words of the specification (section 4.2), written without the
  method: a property holds of a field when the field has a value and the value
  satisfies it, and a rule for a field is violated when the field is in the payload
  and what the rule asks does not hold.
\<close>

fun holds :: "('a \<Rightarrow> bool) \<Rightarrow> 'a property \<Rightarrow> bool" where
  "holds P (Val x) = P x"
| "holds P Undefined = False"
| "holds P Absent = False"

definition WEEKDAYS :: "string list" where
  "WEEKDAYS = [''MONDAY'', ''TUESDAY'', ''WEDNESDAY'', ''THURSDAY'', ''FRIDAY'', ''SATURDAY'']"

definition decimal :: "char \<Rightarrow> bool" where
  "decimal c = (c \<in> set ''0123456789'')"

text \<open>Four digits, a hyphen, four digits, and nothing else.\<close>

fun year_format :: "string \<Rightarrow> bool" where
  "year_format [a, b, c, d, e, f, g, h, i] =
     (decimal a \<and> decimal b \<and> decimal c \<and> decimal d \<and> e = CHR ''-''
      \<and> decimal f \<and> decimal g \<and> decimal h \<and> decimal i)"
| "year_format _ = False"

text \<open>
  Class, teacher and subject reference: a positive integer when the field is present.
\<close>

definition spec_reference_violated :: "jsnumber property \<Rightarrow> bool" where
  "spec_reference_violated p = (has_key p \<and> \<not> positive_integer p)"

text \<open>The day: when present, one of the six weekday values.\<close>

definition spec_day_violated :: "ScheduleRequest \<Rightarrow> bool" where
  "spec_day_violated d =
     (has_key (req_day_of_week d) \<and> \<not> holds (\<lambda>s. s \<in> set WEEKDAYS) (req_day_of_week d))"

text \<open>The times: when both are present, the start sorts strictly before the end.\<close>

definition spec_times_violated :: "ScheduleRequest \<Rightarrow> bool" where
  "spec_times_violated d =
     (has_key (req_start_time d) \<and> has_key (req_end_time d)
      \<and> \<not> holds (\<lambda>a. holds (\<lambda>b. string_lt a b) (req_end_time d)) (req_start_time d))"

text \<open>The academic year: when present, of the format.\<close>

definition spec_year_violated :: "ScheduleRequest \<Rightarrow> bool" where
  "spec_year_violated d =
     (has_key (req_academic_year d) \<and> \<not> holds year_format (req_academic_year d))"

text \<open>The semester: when present, S1 or S2.\<close>

definition spec_semester_violated :: "ScheduleRequest \<Rightarrow> bool" where
  "spec_semester_violated d =
     (has_key (req_semester d) \<and> \<not> holds (\<lambda>s. s = ''S1'' \<or> s = ''S2'') (req_semester d))"

definition spec_rules :: "((ScheduleRequest \<Rightarrow> bool) \<times> string) list" where
  "spec_rules =
     [(\<lambda>d. spec_reference_violated (req_class_id d), MSG_CLASS),
      (\<lambda>d. spec_reference_violated (req_teacher_id d), MSG_TEACHER),
      (\<lambda>d. spec_reference_violated (req_subject_id d), MSG_SUBJECT),
      (spec_day_violated, MSG_DAY), (spec_times_violated, MSG_TIME),
      (spec_year_violated, MSG_YEAR), (spec_semester_violated, MSG_SEMESTER)]"

text \<open>
  The rules as they are in force, again written without the method. They differ from
  the words of the specification in three places: a reference need only be a positive
  number; the rule of the times is off unless both times are non-empty strings; the
  rules of the academic year and of the semester are off for a field that is
  undefined or empty.
\<close>

definition reference_violated :: "jsnumber property \<Rightarrow> bool" where
  "reference_violated p = (has_key p \<and> \<not> positive_number p)"

definition times_violated :: "ScheduleRequest \<Rightarrow> bool" where
  "times_violated d =
     holds (\<lambda>a. holds (\<lambda>b. a \<noteq> [] \<and> b \<noteq> [] \<and> \<not> string_lt a b) (req_end_time d))
       (req_start_time d)"

definition year_violated :: "ScheduleRequest \<Rightarrow> bool" where
  "year_violated d = holds (\<lambda>s. s \<noteq> [] \<and> \<not> year_format s) (req_academic_year d)"

definition semester_violated :: "ScheduleRequest \<Rightarrow> bool" where
  "semester_violated d =
     holds (\<lambda>s. s \<noteq> [] \<and> s \<noteq> ''S1'' \<and> s \<noteq> ''S2'') (req_semester d)"

definition rules_in_force :: "((ScheduleRequest \<Rightarrow> bool) \<times> string) list" where
  "rules_in_force =
     [(\<lambda>d. reference_violated (req_class_id d), MSG_CLASS),
      (\<lambda>d. reference_violated (req_teacher_id d), MSG_TEACHER),
      (\<lambda>d. reference_violated (req_subject_id d), MSG_SUBJECT),
      (spec_day_violated, MSG_DAY), (times_violated, MSG_TIME),
      (year_violated, MSG_YEAR), (semester_violated, MSG_SEMESTER)]"

subsection \<open>formatWeeklyGrid\<close>

text \<open>
  An object literal: its own properties in the order of their creation. Assigning to
  a key that the object owns replaces the value in place; assigning to a new key
  appends the property.
\<close>

type_synonym ('k, 'v) object = "('k \<times> 'v) list"

fun put :: "'k \<Rightarrow> 'v \<Rightarrow> ('k, 'v) object \<Rightarrow> ('k, 'v) object" where
  "put k v [] = [(k, v)]"
| "put k v (p # ps) = (if fst p = k then (k, v) # ps else p # put k v ps)"

text \<open>
  A cell holds \<^verbatim>\<open>null\<close> (\<open>None\<close>) or one record; a row is the object
  \<^verbatim>\<open>grid[day]\<close>; the grid is the outer object.
\<close>

type_synonym cell = "Schedule option"
type_synonym row = "(string, cell) object"
type_synonym grid = "(string, row) object"

text \<open>
  Both objects are created by \<^verbatim>\<open>{}\<close>, so a key they do not own is looked up in
  \<^verbatim>\<open>Object.prototype\<close>. Its members (ECMAScript, Properties of the Object
  Prototype Object, with the legacy ones of Annex B) are eleven functions and the
  accessor \<^verbatim>\<open>__proto__\<close>; every one of them reads as a value other than
  \<^verbatim>\<open>undefined\<close>. The functions are writable data properties: assigning to such
  a key of a row creates an own property of the row.
\<close>

definition OBJECT_PROTOTYPE_FUNCTIONS :: "string list" where
  "OBJECT_PROTOTYPE_FUNCTIONS =
     [''constructor'', ''hasOwnProperty'', ''isPrototypeOf'', ''propertyIsEnumerable'',
      ''toLocaleString'', ''toString'', ''valueOf'', ''__defineGetter__'',
      ''__defineSetter__'', ''__lookupGetter__'', ''__lookupSetter__'']"

definition OBJECT_PROTOTYPE_KEYS :: "string list" where
  "OBJECT_PROTOTYPE_KEYS = OBJECT_PROTOTYPE_FUNCTIONS @ [''__proto__'']"

text \<open>
  The own properties of a record, by name: the twelve fields of the interface, and
  the two optional ones when they are there. All of them are writable data properties
  with a value other than \<^verbatim>\<open>undefined\<close>.
\<close>

definition SCHEDULE_KEYS :: "string list" where
  "SCHEDULE_KEYS =
     [''id'', ''class_id'', ''class_name'', ''teacher_id'', ''teacher_name'', ''subject_id'',
      ''subject_name'', ''day_of_week'', ''start_time'', ''end_time'', ''academic_year'',
      ''semester'']"

definition schedule_owns :: "Schedule \<Rightarrow> string \<Rightarrow> bool" where
  "schedule_owns s k =
     (k \<in> set SCHEDULE_KEYS \<or> (k = ''created_at'' \<and> created_at s \<noteq> None)
      \<or> (k = ''updated_at'' \<and> updated_at s \<noteq> None))"

text \<open>
  Reading \<^verbatim>\<open>row[t]\<close>: the own property; else the property of the record that an
  earlier turn made the prototype of the row, if any; else the member of
  \<^verbatim>\<open>Object.prototype\<close>. The first three answers are data properties that read as
  a value other than \<^verbatim>\<open>undefined\<close> and take an assignment (the inherited ones by
  creating an own property of the row); the accessor \<^verbatim>\<open>__proto__\<close> reads as the
  prototype of the row and its setter replaces that prototype.
\<close>

datatype found = Own | Inherited | Accessor | Missing

definition find_in_row :: "row \<Rightarrow> Schedule option \<Rightarrow> string \<Rightarrow> found" where
  "find_in_row r p t =
     (if map_of r t \<noteq> None then Own
      else if (case p of Some s \<Rightarrow> schedule_owns s t | None \<Rightarrow> False) then Inherited
      else if t \<in> set OBJECT_PROTOTYPE_FUNCTIONS then Inherited
      else if t = ''__proto__'' then Accessor
      else Missing)"

text \<open>
  A record whose day is no key of the grid but a name of \<^verbatim>\<open>Object.prototype\<close>
  reaches the value \<^verbatim>\<open>X\<close> inherited under that name: a built-in function,
  \<^verbatim>\<open>Object.prototype\<close> itself, or what an earlier turn stored there. What
  \<^verbatim>\<open>if (X[t] !== undefined) X[t] = schedule\<close> does then belongs to the host:
  nothing, when the property reads \<^verbatim>\<open>undefined\<close>; a write to an object outside
  the grid; or a TypeError, the code being strict (a read-only property such as the
  name of a function, or a prototype that cannot be replaced). The host is a
  parameter: a function of its state, the day, the start time and the record.

  Such a write has \<^verbatim>\<open>X\<close> as its receiver, and \<^verbatim>\<open>X\<close> is never the grid, a
  row, a record of a cell or a record that is the prototype of a row (when it is a
  record, its day is \<^verbatim>\<open>__proto__\<close>); and a write to \<^verbatim>\<open>Object.prototype\<close>
  replaces the value of a name that is defined there already. So what the host does
  changes nothing of what is modelled here. The records of the list are taken to be
  distinct objects, as the parsed answer of the server makes them.
\<close>

datatype 'w effect = Nothing | Written 'w | Throws

type_synonym 'w host = "'w \<Rightarrow> string \<Rightarrow> string \<Rightarrow> Schedule \<Rightarrow> 'w effect"

datatype js_error = TypeError

text \<open>
  The state of the second loop: the own properties of the grid and of its rows, the
  rows whose prototype a record has become (by day), and the state of the host.
\<close>

record 'w filling =
  the_grid :: grid
  row_protos :: "(string, Schedule) object"
  outside :: 'w

text \<open>The initialisation: every day gets a fresh row with every slot start set to null.\<close>

definition init_row :: row where
  "init_row = foldl (\<lambda>r slot. put (slot_start_time slot) None r) [] TIME_SLOTS"

definition init_grid :: grid where
  "init_grid = foldl (\<lambda>g day. put (day_value day) init_row g) [] DAYS_OF_WEEK"

text \<open>
  One turn of the second loop:
  \<^verbatim>\<open>if (grid[d] && grid[d][t] !== undefined) { grid[d][t] = schedule; }\<close>
\<close>

definition place :: "'w host \<Rightarrow> Schedule \<Rightarrow> 'w filling \<Rightarrow> js_error + 'w filling" where
  "place host schedule st =
     (case map_of (the_grid st) (day_of_week schedule) of
        Some r \<Rightarrow>
          (case find_in_row r (map_of (row_protos st) (day_of_week schedule))
                  (start_time schedule) of
             Own \<Rightarrow>
               Inr (st\<lparr>the_grid := put (day_of_week schedule)
                      (put (start_time schedule) (Some schedule) r) (the_grid st)\<rparr>)
           | Inherited \<Rightarrow>
               Inr (st\<lparr>the_grid := put (day_of_week schedule)
                      (put (start_time schedule) (Some schedule) r) (the_grid st)\<rparr>)
           | Accessor \<Rightarrow>
               Inr (st\<lparr>row_protos := put (day_of_week schedule) schedule (row_protos st)\<rparr>)
           | Missing \<Rightarrow> Inr st)
      | None \<Rightarrow>
          if day_of_week schedule \<in> set OBJECT_PROTOTYPE_KEYS then
            (case host (outside st) (day_of_week schedule) (start_time schedule) schedule of
               Nothing \<Rightarrow> Inr st
             | Written w \<Rightarrow> Inr (st\<lparr>outside := w\<rparr>)
             | Throws \<Rightarrow> Inl TypeError)
          else Inr st)"

fun fill :: "'w host \<Rightarrow> Schedule list \<Rightarrow> 'w filling \<Rightarrow> js_error + 'w filling" where
  "fill host [] st = Inr st"
| "fill host (schedule # schedules) st =
     (case place host schedule st of Inl e \<Rightarrow> Inl e | Inr st' \<Rightarrow> fill host schedules st')"

text \<open>The method: the grid it returns, or the error it throws.\<close>

definition formatWeeklyGrid :: "'w host \<Rightarrow> 'w \<Rightarrow> Schedule list \<Rightarrow> js_error + grid" where
  "formatWeeklyGrid host w schedules =
     (case fill host schedules \<lparr>the_grid = init_grid, row_protos = [], outside = w\<rparr> of
        Inl e \<Rightarrow> Inl e
      | Inr st \<Rightarrow> Inr (the_grid st))"

text \<open>
  A host for the examples: the built-in objects as the standard makes them, followed
  through the writes. Its state says, for each of the eleven function names of
  \<^verbatim>\<open>Object.prototype\<close>, what the name holds (the built-in function, or the record
  that a turn with the day \<^verbatim>\<open>__proto__\<close> stored there), which properties that
  object has gained, and the record that has become its prototype, if any.

  Under the day \<^verbatim>\<open>__proto__\<close> the value reached is \<^verbatim>\<open>Object.prototype\<close>: its
  functions take the assignment, and replacing its prototype throws. Otherwise the
  value reached is what the name holds. A built-in function owns \<^verbatim>\<open>name\<close> and
  \<^verbatim>\<open>length\<close> (and \<^verbatim>\<open>Object\<close> owns \<^verbatim>\<open>prototype\<close>), all read-only, and
  \<^verbatim>\<open>Object\<close> owns its static methods; it inherits the methods of
  \<^verbatim>\<open>Function.prototype\<close>, whose restricted \<^verbatim>\<open>caller\<close> and \<^verbatim>\<open>arguments\<close>
  throw when read, until a record becomes its prototype. A record owns its fields.
  Every object inherits the members of \<^verbatim>\<open>Object.prototype\<close>. An assignment to an
  inherited data property creates an own property of the object reached; an
  assignment to \<^verbatim>\<open>__proto__\<close> makes the record its prototype.
\<close>

definition FUNCTION_PROTOTYPE_KEYS :: "string list" where
  "FUNCTION_PROTOTYPE_KEYS = [''apply'', ''bind'', ''call'', ''constructor'', ''toString'']"

definition OBJECT_STATICS :: "string list" where
  "OBJECT_STATICS =
     [''assign'', ''create'', ''defineProperties'', ''defineProperty'', ''entries'',
      ''freeze'', ''fromEntries'', ''getOwnPropertyDescriptor'',
      ''getOwnPropertyDescriptors'', ''getOwnPropertyNames'', ''getOwnPropertySymbols'',
      ''getPrototypeOf'', ''groupBy'', ''hasOwn'', ''is'', ''isExtensible'', ''isFrozen'',
      ''isSealed'', ''keys'', ''preventExtensions'', ''seal'', ''setPrototypeOf'', ''values'']"

record reached =
  stored :: "Schedule option"
  gained :: "string list"
  proto_record :: "Schedule option"

type_synonym builtins = "(string, reached) object"

definition pristine :: builtins where
  "pristine =
     map (\<lambda>n. (n, \<lparr>stored = None, gained = [], proto_record = None\<rparr>))
       OBJECT_PROTOTYPE_FUNCTIONS"

definition standard_host :: "builtins host" where
  "standard_host w d t s =
     (if d = ''__proto__'' then
        (if t = ''__proto__'' then Throws
         else if t \<in> set OBJECT_PROTOTYPE_FUNCTIONS then
           Written (put t \<lparr>stored = Some s, gained = [], proto_record = None\<rparr> w)
         else Nothing)
      else
        (case map_of w d of
           None \<Rightarrow> Nothing
         | Some x \<Rightarrow>
             if stored x = None
                \<and> (t \<in> set [''name'', ''length''] \<or> (d = ''constructor'' \<and> t = ''prototype''))
             then Throws
             else if (case stored x of
                        Some b \<Rightarrow> schedule_owns b t
                      | None \<Rightarrow> d = ''constructor'' \<and> t \<in> set OBJECT_STATICS)
                     \<or> t \<in> set (gained x)
             then Written w
             else if (case proto_record x of
                        Some c \<Rightarrow> schedule_owns c t
                      | None \<Rightarrow> stored x = None \<and> t \<in> set FUNCTION_PROTOTYPE_KEYS)
             then Written (put d (x\<lparr>gained := t # gained x\<rparr>) w)
             else if stored x = None \<and> proto_record x = None
                     \<and> t \<in> set [''caller'', ''arguments'']
             then Throws
             else if t \<in> set OBJECT_PROTOTYPE_FUNCTIONS
             then Written (put d (x\<lparr>gained := t # gained x\<rparr>) w)
             else if t = ''__proto__''
             then Written (put d (x\<lparr>proto_record := Some s\<rparr>) w)
             else Nothing))"

text \<open>Reading \<^verbatim>\<open>grid[d][t]\<close> as an own property of an own row.\<close>

definition cell_at :: "grid \<Rightarrow> string \<Rightarrow> string \<Rightarrow> cell option" where
  "cell_at g d t = (case map_of g d of Some r \<Rightarrow> map_of r t | None \<Rightarrow> None)"

text \<open>A record for the examples: a lesson of a day and a start time.\<close>

definition lesson :: "int \<Rightarrow> string \<Rightarrow> string \<Rightarrow> Schedule" where
  "lesson n d t =
     \<lparr>sched_id = n, class_id = 1, class_name = ''6A'', teacher_id = 7,
      teacher_name = ''Dupont'', subject_id = 3, subject_name = ''Maths'',
      day_of_week = d, start_time = t, end_time = ''10:00'',
      academic_year = ''2024-2025'', semester = ''S1'',
      created_at = None, updated_at = None\<rparr>"

subsection \<open>Arithmetic of numbers\<close>

text \<open>
  Every arithmetic operator gives the double nearest to the exact result, ties to the
  even significand (IEEE 754 binary64: significands of 53 bits, least exponent
  \<open>-1074\<close>, overflow to an infinity from \<open>2 ^ 1024\<close> on).

  \<open>ilog2 q\<close> is the integer \<open>k\<close> with \<open>2 powi k \<le> \<bar>q\<bar> < 2 powi (k + 1)\<close>.
\<close>

definition ilog2 :: "rat \<Rightarrow> int" where
  "ilog2 q =
     (let a = fst (quotient_of \<bar>q\<bar>); b = snd (quotient_of \<bar>q\<bar>);
          k = bitlen a - bitlen b
      in if 2 powi k \<le> \<bar>q\<bar> then k else k - 1)"

definition round_half_even :: "rat \<Rightarrow> int" where
  "round_half_even x =
     (let f = \<lfloor>x\<rfloor>; r = x - of_int f
      in if r < 1 / 2 then f else if 1 / 2 < r then f + 1 else if even f then f else f + 1)"

definition round_double :: "rat \<Rightarrow> jsnumber" where
  "round_double q =
     (if q = 0 then Fin 0
      else
        let e = max (ilog2 q - 52) (- 1074);
            r = of_int (round_half_even (q / 2 powi e)) * 2 powi e
        in if 2 ^ 1024 \<le> r then PInf else if r \<le> - (2 ^ 1024) then NInf else Fin r)"

fun js_neg :: "jsnumber \<Rightarrow> jsnumber" where
  "js_neg NaN = NaN"
| "js_neg PInf = NInf"
| "js_neg NInf = PInf"
| "js_neg (Fin a) = Fin (- a)"

fun js_add :: "jsnumber \<Rightarrow> jsnumber \<Rightarrow> jsnumber" where
  "js_add (Fin a) (Fin b) = round_double (a + b)"
| "js_add NaN y = NaN"
| "js_add x NaN = NaN"
| "js_add PInf NInf = NaN"
| "js_add NInf PInf = NaN"
| "js_add PInf y = PInf"
| "js_add NInf y = NInf"
| "js_add (Fin a) y = y"

definition js_sub :: "jsnumber \<Rightarrow> jsnumber \<Rightarrow> jsnumber" where
  "js_sub x y = js_add x (js_neg y)"

text \<open>Division by a finite number other than zero, the only one the source makes.\<close>

fun js_div :: "jsnumber \<Rightarrow> rat \<Rightarrow> jsnumber" where
  "js_div NaN d = NaN"
| "js_div PInf d = (if 0 < d then PInf else NInf)"
| "js_div NInf d = (if 0 < d then NInf else PInf)"
| "js_div (Fin a) d = round_double (a / d)"

subsection \<open>calculateDuration\<close>

text \<open>
  \<^verbatim>\<open>new Date(s).getTime()\<close> belongs to the host: a function from the string to
  the time value in milliseconds, NaN for an invalid date. The methods take it as a
  parameter.
\<close>

type_synonym date_clock = "string \<Rightarrow> jsnumber"

definition calculateDuration :: "date_clock \<Rightarrow> string \<Rightarrow> string \<Rightarrow> jsnumber" where
  "calculateDuration getTime startTime endTime =
     (let start_ms = getTime (''2000-01-01T'' @ startTime @ '':00'');
          end_ms = getTime (''2000-01-01T'' @ endTime @ '':00'')
      in js_div (js_sub end_ms start_ms) (1000 * 60 * 60))"

text \<open>
  The time of day \<open>h:m\<close> written HH:MM, and what the standard asks of the host for
  the strings \<^verbatim>\<open>2000-01-01THH:MM:00\<close>: local time, \<open>t0\<close> being the time value of
  the local midnight of that day.
\<close>

definition digit_char :: "nat \<Rightarrow> char" where
  "digit_char n = char_of (48 + n)"

definition hhmm :: "nat \<Rightarrow> nat \<Rightarrow> string" where
  "hhmm h m = [digit_char (h div 10), digit_char (h mod 10), CHR '':'',
     digit_char (m div 10), digit_char (m mod 10)]"

definition reads_local_time :: "date_clock \<Rightarrow> int \<Rightarrow> bool" where
  "reads_local_time getTime t0 \<longleftrightarrow>
     (\<forall>h m. h < 24 \<longrightarrow> m < 60 \<longrightarrow>
        getTime (''2000-01-01T'' @ hhmm h m @ '':00'')
          = Fin (of_int (t0 + 60000 * (60 * int h + int m))))"

text \<open>
  A host clock for the examples: it reads \<^verbatim>\<open>2000-01-01THH:MM:00\<close> as above and
  takes every other string for an invalid date.
\<close>

definition digit_val :: "char \<Rightarrow> nat" where
  "digit_val c = of_char c - 48"

definition example_clock :: "int \<Rightarrow> date_clock" where
  "example_clock t0 s =
     (if length s = 19 \<and> take 11 s = ''2000-01-01T'' \<and> drop 16 s = '':00''
         \<and> s ! 13 = CHR '':''
         \<and> is_digit (s ! 11) \<and> is_digit (s ! 12) \<and> is_digit (s ! 14) \<and> is_digit (s ! 15)
         \<and> 10 * digit_val (s ! 11) + digit_val (s ! 12) < 24
         \<and> 10 * digit_val (s ! 14) + digit_val (s ! 15) < 60
      then Fin (of_int (t0 + 60000 *
             (60 * int (10 * digit_val (s ! 11) + digit_val (s ! 12))
               + int (10 * digit_val (s ! 14) + digit_val (s ! 15)))))
      else NaN)"

subsection \<open>getScheduleStatistics\<close>

record HoursEntry =
  name :: string
  hours :: jsnumber

text \<open>
  The entries of both result lists; the source names the first field
  \<^verbatim>\<open>teacher_name\<close> in one list and \<^verbatim>\<open>class_name\<close> in the other.
\<close>

record Workload =
  entry_name :: string
  hours_per_week :: jsnumber

record Statistics =
  total_schedules :: nat
  schedules_by_day :: "(string, nat) object"
  teacher_workload :: "Workload list"
  class_coverage :: "Workload list"

text \<open>
  \<^verbatim>\<open>if (!h[k]) { h[k] = {name: n, hours: 0}; }  h[k].hours += duration;\<close>
  The keys are the identifiers of the records, integers; as property keys they are
  their decimal numerals, which are never names of \<^verbatim>\<open>Object.prototype\<close>.
\<close>

definition credit ::
  "int \<Rightarrow> string \<Rightarrow> jsnumber \<Rightarrow> (int, HoursEntry) object \<Rightarrow> (int, HoursEntry) object" where
  "credit k n duration h =
     (let e = (case map_of h k of None \<Rightarrow> \<lparr>name = n, hours = Fin 0\<rparr> | Some e \<Rightarrow> e)
      in put k (e\<lparr>hours := js_add (hours e) duration\<rparr>) h)"

text \<open>One turn of the loop over the records: both mappings are credited.\<close>

definition tally ::
  "date_clock \<Rightarrow> (int, HoursEntry) object \<times> (int, HoursEntry) object \<Rightarrow> Schedule
     \<Rightarrow> (int, HoursEntry) object \<times> (int, HoursEntry) object" where
  "tally getTime acc schedule =
     (let duration = calculateDuration getTime (start_time schedule) (end_time schedule)
      in (credit (teacher_id schedule) (teacher_name schedule) duration (fst acc),
          credit (class_id schedule) (class_name schedule) duration (snd acc)))"

text \<open>
  \<^verbatim>\<open>Object.values\<close> follows the order of the own keys of an object: first the keys
  that are array indices (the integers from 0 to \<open>2 ^ 32 - 2\<close>) in ascending order,
  then the other keys in the order of their creation.
\<close>

definition is_array_index :: "int \<Rightarrow> bool" where
  "is_array_index k = (0 \<le> k \<and> k < 2 ^ 32 - 1)"

definition object_values :: "(int, 'v) object \<Rightarrow> 'v list" where
  "object_values h =
     map snd (sort_key fst (filter (\<lambda>p. is_array_index (fst p)) h)
              @ filter (\<lambda>p. \<not> is_array_index (fst p)) h)"

definition getScheduleStatistics :: "date_clock \<Rightarrow> Schedule list \<Rightarrow> Statistics" where
  "getScheduleStatistics getTime schedules =
     (let by_day = foldl (\<lambda>counts day.
              put (day_value day)
                (length (filter (\<lambda>s. day_of_week s = day_value day) schedules)) counts)
            [] DAYS_OF_WEEK;
          acc = foldl (tally getTime) ([], []) schedules;
          teacherHours = fst acc;
          classHours = snd acc
      in \<lparr>total_schedules = length schedules,
          schedules_by_day = by_day,
          teacher_workload =
            map (\<lambda>t. \<lparr>entry_name = name t, hours_per_week = hours t\<rparr>)
              (object_values teacherHours),
          class_coverage =
            map (\<lambda>c. \<lparr>entry_name = name c, hours_per_week = hours c\<rparr>)
              (object_values classHours)\<rparr>)"

text \<open>
  The words of the specification: the identifiers in the order of their first
  appearance, and the entry of an identifier, with the name of the first record that
  has it and the sum, from the left, of the durations of its records.
\<close>

fun first_seen :: "int list \<Rightarrow> int list" where
  "first_seen [] = []"
| "first_seen (k # ks) = k # filter (\<lambda>j. j \<noteq> k) (first_seen ks)"

definition workload_of ::
  "date_clock \<Rightarrow> (Schedule \<Rightarrow> int) \<Rightarrow> (Schedule \<Rightarrow> string) \<Rightarrow> Schedule list \<Rightarrow> int
     \<Rightarrow> Workload" where
  "workload_of getTime key label schedules k =
     (let rs = filter (\<lambda>s. key s = k) schedules
      in \<lparr>entry_name = (case rs of [] \<Rightarrow> [] | r # _ \<Rightarrow> label r),
          hours_per_week =
            foldl js_add (Fin 0)
              (map (\<lambda>s. calculateDuration getTime (start_time s) (end_time s)) rs)\<rparr>)"

text \<open>The order of the keys of an object whose keys were created in the order \<open>ks\<close>.\<close>

definition key_order :: "int list \<Rightarrow> int list" where
  "key_order ks = sort (filter is_array_index ks) @ filter (\<lambda>k. \<not> is_array_index k) ks"

text \<open>A record for the examples: a lesson of a teacher and a class, from and to a time.\<close>

definition taught :: "int \<Rightarrow> string \<Rightarrow> int \<Rightarrow> string \<Rightarrow> string \<Rightarrow> string \<Rightarrow> Schedule" where
  "taught t tn c cn a b =
     \<lparr>sched_id = 1, class_id = c, class_name = cn, teacher_id = t,
      teacher_name = tn, subject_id = 3, subject_name = ''Maths'',
      day_of_week = ''MONDAY'', start_time = a, end_time = b,
      academic_year = ''2024-2025'', semester = ''S1'',
      created_at = None, updated_at = None\<rparr>"

text \<open>
  One of the two mappings on its own: the loop over the records, crediting the key
  and the label that the selectors read from each record.
\<close>

definition hours_by ::
  "date_clock \<Rightarrow> (Schedule \<Rightarrow> int) \<Rightarrow> (Schedule \<Rightarrow> string) \<Rightarrow> (int, HoursEntry) object
     \<Rightarrow> Schedule list \<Rightarrow> (int, HoursEntry) object" where
  "hours_by getTime key label h schedules =
     foldl (\<lambda>h s. credit (key s) (label s)
        (calculateDuration getTime (start_time s) (end_time s)) h) h schedules"

section \<open>Properties of the validator\<close>

lemmas msg_defs = MSG_CLASS_def MSG_TEACHER_def MSG_SUBJECT_def MSG_DAY_def MSG_TIME_def
  MSG_YEAR_def MSG_SEMESTER_def

lemmas rejected_defs = class_id_rejected_def teacher_id_rejected_def subject_id_rejected_def
  day_of_week_rejected_def times_rejected_def academic_year_rejected_def
  semester_rejected_def

lemma messages_distinct:
  "distinct [MSG_CLASS, MSG_TEACHER, MSG_SUBJECT, MSG_DAY, MSG_TIME, MSG_YEAR, MSG_SEMESTER]"
  by (simp add: msg_defs)

lemma errors_validate:
  "errors (validateScheduleData d) = map snd (filter (\<lambda>r. fst r d) pushes)"
  by (simp add: validateScheduleData_def pushes_def push_def)

lemma isValid_validate:
  "isValid (validateScheduleData d) = (errors (validateScheduleData d) = [])"
  by (simp add: validateScheduleData_def Let_def)

lemma class_error_iff:
  "MSG_CLASS \<in> set (errors (validateScheduleData d)) \<longleftrightarrow> class_id_rejected d"
  using messages_distinct
  by (auto simp add: errors_validate pushes_def)

lemma teacher_error_iff:
  "MSG_TEACHER \<in> set (errors (validateScheduleData d)) \<longleftrightarrow> teacher_id_rejected d"
  using messages_distinct
  by (auto simp add: errors_validate pushes_def)

lemma subject_error_iff:
  "MSG_SUBJECT \<in> set (errors (validateScheduleData d)) \<longleftrightarrow> subject_id_rejected d"
  using messages_distinct
  by (auto simp add: errors_validate pushes_def)

lemma time_error_iff:
  "MSG_TIME \<in> set (errors (validateScheduleData d)) \<longleftrightarrow> times_rejected d"
  using messages_distinct
  by (auto simp add: errors_validate pushes_def)

lemma reference_rejected_iff:
  "(has_key p \<and> (\<not> number_truthy p \<or> number_le_zero p)) \<longleftrightarrow> (has_key p \<and> \<not> positive_number p)"
proof (cases p)
  case (Val n)
  then show ?thesis by (cases n) (auto simp add: has_key_def)
qed (simp_all add: has_key_def)

lemma floor_three_halves: "\<lfloor>3 / 2 :: rat\<rfloor> = 1"
  by (simp add: floor_eq_iff)

text \<open>
  C10. The validator applied to the payload with no field at all answers valid, with
  no error: every rule asks first whether its key is in the payload. For any payload,
  a class, teacher or subject reference that is missing is not reported.
\<close>

theorem validate_empty_request:
  "validateScheduleData empty_request = \<lparr>isValid = True, errors = []\<rparr>
   \<and> (req_class_id d = Absent \<longrightarrow> MSG_CLASS \<notin> set (errors (validateScheduleData d)))
   \<and> (req_teacher_id d = Absent \<longrightarrow> MSG_TEACHER \<notin> set (errors (validateScheduleData d)))
   \<and> (req_subject_id d = Absent \<longrightarrow> MSG_SUBJECT \<notin> set (errors (validateScheduleData d)))"
proof -
  have "validateScheduleData empty_request = \<lparr>isValid = True, errors = []\<rparr>"
    by (simp add: validateScheduleData_def empty_request_def rejected_defs has_key_def)
  then show ?thesis
    by (simp add: class_error_iff teacher_error_iff subject_error_iff class_id_rejected_def
        teacher_id_rejected_def subject_id_rejected_def has_key_def)
qed

theorem validate_empty_request_witness:
  "MSG_CLASS \<notin> set (errors (validateScheduleData (empty_request\<lparr>req_semester := Val ''S3''\<rparr>)))
   \<and> MSG_TEACHER \<notin> set (errors (validateScheduleData (empty_request\<lparr>req_semester := Val ''S3''\<rparr>)))
   \<and> MSG_SUBJECT \<notin> set (errors (validateScheduleData (empty_request\<lparr>req_semester := Val ''S3''\<rparr>)))
   \<and> isValid (validateScheduleData empty_request)"
  using validate_empty_request [of "empty_request\<lparr>req_semester := Val ''S3''\<rparr>"]
  by (simp add: empty_request_def)

lemma is_digit_decimal: "is_digit c \<longleftrightarrow> decimal c"
proof
  assume "is_digit c"
  then have "48 \<le> (of_char c :: nat)" and "(of_char c :: nat) \<le> 57"
    by (simp_all add: is_digit_def)
  then have "(of_char c :: nat) = 48 \<or> (of_char c :: nat) = 49 \<or> (of_char c :: nat) = 50
      \<or> (of_char c :: nat) = 51 \<or> (of_char c :: nat) = 52 \<or> (of_char c :: nat) = 53
      \<or> (of_char c :: nat) = 54 \<or> (of_char c :: nat) = 55 \<or> (of_char c :: nat) = 56
      \<or> (of_char c :: nat) = 57"
    by arith
  then have "(of_char c :: nat) \<in> {48, 49, 50, 51, 52, 53, 54, 55, 56, 57}"
    by blast
  moreover have "c = char_of (of_char c :: nat)" by simp
  moreover have "char_of (48 :: nat) = CHR ''0''" "char_of (49 :: nat) = CHR ''1''"
    "char_of (50 :: nat) = CHR ''2''" "char_of (51 :: nat) = CHR ''3''"
    "char_of (52 :: nat) = CHR ''4''" "char_of (53 :: nat) = CHR ''5''"
    "char_of (54 :: nat) = CHR ''6''" "char_of (55 :: nat) = CHR ''7''"
    "char_of (56 :: nat) = CHR ''8''" "char_of (57 :: nat) = CHR ''9''"
    by code_simp+
  ultimately show "decimal c"
    unfolding decimal_def by (metis insertE list.set_intros(1,2) singletonD)
next
  assume "decimal c"
  then show "is_digit c" by (auto simp add: decimal_def is_digit_def)
qed

lemma year_format_length: "year_format s \<Longrightarrow> length s = 9"
  by (cases s rule: year_format.cases) simp_all

lemma yearPattern_test_format: "yearPattern_test s \<longleftrightarrow> year_format s"
proof (cases "length s = 9")
  case True
  then obtain a b c d e f g h i where "s = [a, b, c, d, e, f, g, h, i]"
    by (auto simp add: length_Suc_conv eval_nat_numeral)
  then show ?thesis by (auto simp add: yearPattern_test_def is_digit_decimal)
next
  case False
  then show ?thesis using year_format_length [of s] by (auto simp add: yearPattern_test_def)
qed

lemma class_id_rejected_iff: "class_id_rejected d \<longleftrightarrow> reference_violated (req_class_id d)"
  by (simp only: class_id_rejected_def reference_violated_def reference_rejected_iff)

lemma teacher_id_rejected_iff:
  "teacher_id_rejected d \<longleftrightarrow> reference_violated (req_teacher_id d)"
  by (simp only: teacher_id_rejected_def reference_violated_def reference_rejected_iff)

lemma subject_id_rejected_iff:
  "subject_id_rejected d \<longleftrightarrow> reference_violated (req_subject_id d)"
  by (simp only: subject_id_rejected_def reference_violated_def reference_rejected_iff)

lemma day_of_week_rejected_iff: "day_of_week_rejected d \<longleftrightarrow> spec_day_violated d"
  by (cases "req_day_of_week d")
    (auto simp add: day_of_week_rejected_def spec_day_violated_def has_key_def find_day_def
      find_None_iff DAYS_OF_WEEK_def WEEKDAYS_def)

lemma times_rejected_iff: "times_rejected d \<longleftrightarrow> times_violated d"
  by (cases "req_start_time d"; cases "req_end_time d")
    (simp_all add: times_rejected_def times_violated_def has_key_def string_ge_def)

lemma academic_year_rejected_iff: "academic_year_rejected d \<longleftrightarrow> year_violated d"
  by (cases "req_academic_year d")
    (simp_all add: academic_year_rejected_def year_violated_def has_key_def
      yearPattern_test_format)

lemma semester_rejected_iff: "semester_rejected d \<longleftrightarrow> semester_violated d"
  by (cases "req_semester d")
    (simp_all add: semester_rejected_def semester_violated_def has_key_def)

text \<open>
  C6, as the specification states it, fails: the payload whose academic year is the
  empty string has the field, the empty string is not of the format, so the rule of
  the academic year is violated in the words of the specification; the validator
  returns no message and answers valid. The same holds of a semester that is the
  empty string, of the times 10:00 and the empty string, and of the class reference
  1.5.
\<close>

theorem validate_rules_counterexample:
  "map snd (filter (\<lambda>r. fst r (empty_request\<lparr>req_academic_year := Val ''''\<rparr>)) spec_rules)
     = [MSG_YEAR]
   \<and> validateScheduleData (empty_request\<lparr>req_academic_year := Val ''''\<rparr>)
     = \<lparr>isValid = True, errors = []\<rparr>
   \<and> map snd (filter (\<lambda>r. fst r (empty_request\<lparr>req_semester := Val ''''\<rparr>)) spec_rules)
     = [MSG_SEMESTER]
   \<and> validateScheduleData (empty_request\<lparr>req_semester := Val ''''\<rparr>)
     = \<lparr>isValid = True, errors = []\<rparr>
   \<and> map snd (filter (\<lambda>r. fst r
         (empty_request\<lparr>req_start_time := Val ''10:00'', req_end_time := Val ''''\<rparr>)) spec_rules)
     = [MSG_TIME]
   \<and> validateScheduleData (empty_request\<lparr>req_start_time := Val ''10:00'', req_end_time := Val ''''\<rparr>)
     = \<lparr>isValid = True, errors = []\<rparr>
   \<and> map snd (filter (\<lambda>r. fst r (empty_request\<lparr>req_class_id := Val (Fin (3 / 2))\<rparr>)) spec_rules)
     = [MSG_CLASS]
   \<and> validateScheduleData (empty_request\<lparr>req_class_id := Val (Fin (3 / 2))\<rparr>)
     = \<lparr>isValid = True, errors = []\<rparr>"
  by (simp add: spec_rules_def spec_reference_violated_def spec_day_violated_def
      spec_times_violated_def spec_year_violated_def spec_semester_violated_def
      validateScheduleData_def empty_request_def rejected_defs has_key_def
      floor_three_halves)

text \<open>
  C6, amended. For every payload the error list is the list of the messages of the
  rules in force that the payload violates, each rule looked at whatever the others
  gave, in the order class, teacher, subject, day, times, academic year, semester; and
  the payload is valid exactly when that list is empty. The rules in force: a
  reference that is present is a positive number; a day that is present is one of the
  six weekday values; two times that are both non-empty strings are in strict order;
  an academic year that is a non-empty string is of the format; a semester that is a
  non-empty string is S1 or S2.
\<close>

theorem validate_collects_every_rule:
  "errors (validateScheduleData d) = map snd (filter (\<lambda>r. fst r d) rules_in_force)
   \<and> isValid (validateScheduleData d) = (errors (validateScheduleData d) = [])"
  using isValid_validate [of d]
  by (simp add: errors_validate pushes_def rules_in_force_def class_id_rejected_iff
      teacher_id_rejected_iff subject_id_rejected_iff day_of_week_rejected_iff
      times_rejected_iff academic_year_rejected_iff semester_rejected_iff)

theorem validate_collects_every_rule_witness:
  "errors (validateScheduleData
      (empty_request\<lparr>req_class_id := Val (Fin 0), req_start_time := Val ''10:00'',
         req_end_time := Val ''09:00'', req_semester := Val ''S3''\<rparr>))
     = [MSG_CLASS, MSG_TIME, MSG_SEMESTER]
   \<and> isValid (validateScheduleData
      (empty_request\<lparr>req_class_id := Val (Fin 0), req_start_time := Val ''10:00'',
         req_end_time := Val ''09:00'', req_semester := Val ''S3''\<rparr>)) = False"
  using validate_collects_every_rule
    [of "empty_request\<lparr>req_class_id := Val (Fin 0), req_start_time := Val ''10:00'',
         req_end_time := Val ''09:00'', req_semester := Val ''S3''\<rparr>"]
  by (simp add: rules_in_force_def empty_request_def reference_violated_def
      spec_day_violated_def times_violated_def year_violated_def semester_violated_def
      has_key_def)

text \<open>
  C7, as the specification states it, fails: with both time fields in the payload and
  the end time the empty string, \<^verbatim>\<open>"10:00"\<close> does not sort strictly before
  \<^verbatim>\<open>""\<close>, and the validator reports no time-ordering error, because the
  comparison is guarded by the truthiness of both values.
\<close>

theorem time_rule_counterexample:
  "has_key (req_start_time
      (empty_request\<lparr>req_start_time := Val ''10:00'', req_end_time := Val ''''\<rparr>))
   \<and> has_key (req_end_time
      (empty_request\<lparr>req_start_time := Val ''10:00'', req_end_time := Val ''''\<rparr>))
   \<and> \<not> string_lt ''10:00'' ''''
   \<and> MSG_TIME \<notin> set (errors (validateScheduleData
      (empty_request\<lparr>req_start_time := Val ''10:00'', req_end_time := Val ''''\<rparr>)))"
  by (simp add: time_error_iff times_rejected_def empty_request_def has_key_def)

text \<open>
  C7, amended. The validator reports the time-ordering error exactly when both time
  fields hold non-empty strings and the start time does not sort strictly before the
  end time in the comparison of strings by code units; a field that is missing,
  undefined or empty switches the rule off.
\<close>

theorem time_rule_nonempty:
  "MSG_TIME \<in> set (errors (validateScheduleData d)) \<longleftrightarrow>
     (\<exists>a b. req_start_time d = Val a \<and> req_end_time d = Val b \<and> a \<noteq> [] \<and> b \<noteq> []
        \<and> \<not> string_lt a b)"
proof -
  have "times_rejected d \<longleftrightarrow>
     (\<exists>a b. req_start_time d = Val a \<and> req_end_time d = Val b \<and> a \<noteq> [] \<and> b \<noteq> []
        \<and> \<not> string_lt a b)"
    by (cases "req_start_time d"; cases "req_end_time d")
      (simp_all add: times_rejected_def has_key_def string_ge_def)
  then show ?thesis by (simp add: time_error_iff)
qed

theorem time_rule_nonempty_witness:
  "MSG_TIME \<in> set (errors (validateScheduleData
      (empty_request\<lparr>req_start_time := Val ''10:00'', req_end_time := Val ''09:00''\<rparr>)))
   \<and> isValid (validateScheduleData
      (empty_request\<lparr>req_start_time := Val ''10:00'', req_end_time := Val ''09:00''\<rparr>)) = False
   \<and> MSG_TIME \<notin> set (errors (validateScheduleData
      (empty_request\<lparr>req_start_time := Val ''09:00'', req_end_time := Val ''10:00''\<rparr>)))"
  using
    time_rule_nonempty
      [of "empty_request\<lparr>req_start_time := Val ''10:00'', req_end_time := Val ''09:00''\<rparr>"]
    time_rule_nonempty
      [of "empty_request\<lparr>req_start_time := Val ''09:00'', req_end_time := Val ''10:00''\<rparr>"]
    isValid_validate
      [of "empty_request\<lparr>req_start_time := Val ''10:00'', req_end_time := Val ''09:00''\<rparr>"]
  by auto

text \<open>
  C8, as the specification states it, fails: the payload whose class reference is 1.5
  has the field, 1.5 is not a positive integer, and the validator reports no error for
  the class field (it accepts the payload).
\<close>

theorem reference_rule_counterexample:
  "has_key (req_class_id (empty_request\<lparr>req_class_id := Val (Fin (3 / 2))\<rparr>))
   \<and> \<not> positive_integer (req_class_id (empty_request\<lparr>req_class_id := Val (Fin (3 / 2))\<rparr>))
   \<and> MSG_CLASS \<notin> set (errors (validateScheduleData
        (empty_request\<lparr>req_class_id := Val (Fin (3 / 2))\<rparr>)))
   \<and> validateScheduleData (empty_request\<lparr>req_class_id := Val (Fin (3 / 2))\<rparr>)
       = \<lparr>isValid = True, errors = []\<rparr>"
  by (simp add: validateScheduleData_def empty_request_def rejected_defs has_key_def
      floor_three_halves)

text \<open>
  C8, amended. For each of the class, teacher and subject references, the validator
  reports the error of that field exactly when the field is in the payload and its
  value is not a positive number: undefined, NaN, zero or negative. Whether a
  positive value is an integer is not looked at.
\<close>

theorem reference_rule_positive_number:
  "(MSG_CLASS \<in> set (errors (validateScheduleData d)) \<longleftrightarrow>
      has_key (req_class_id d) \<and> \<not> positive_number (req_class_id d))
   \<and> (MSG_TEACHER \<in> set (errors (validateScheduleData d)) \<longleftrightarrow>
      has_key (req_teacher_id d) \<and> \<not> positive_number (req_teacher_id d))
   \<and> (MSG_SUBJECT \<in> set (errors (validateScheduleData d)) \<longleftrightarrow>
      has_key (req_subject_id d) \<and> \<not> positive_number (req_subject_id d))"
  by (simp only: class_error_iff teacher_error_iff subject_error_iff rejected_defs
      reference_rejected_iff)

theorem reference_rule_positive_number_witness:
  "MSG_CLASS \<in> set (errors (validateScheduleData (empty_request\<lparr>req_class_id := Val (Fin 0)\<rparr>)))
   \<and> isValid (validateScheduleData (empty_request\<lparr>req_class_id := Val (Fin 0)\<rparr>)) = False
   \<and> MSG_CLASS \<notin> set (errors (validateScheduleData (empty_request\<lparr>req_class_id := Val (Fin 5)\<rparr>)))"
  using
    reference_rule_positive_number [of "empty_request\<lparr>req_class_id := Val (Fin 0)\<rparr>"]
    reference_rule_positive_number [of "empty_request\<lparr>req_class_id := Val (Fin 5)\<rparr>"]
    isValid_validate [of "empty_request\<lparr>req_class_id := Val (Fin 0)\<rparr>"]
  by (auto simp add: empty_request_def has_key_def)

section \<open>Properties of the grid builder\<close>

lemma map_of_put: "map_of (put k v ps) = (map_of ps)(k \<mapsto> v)"
  by (induction ps) (auto simp add: fun_eq_iff)

lemma keys_put_own: "map_of ps k = Some c \<Longrightarrow> map fst (put k v ps) = map fst ps"
  by (induction ps) (auto split: if_splits)

lemma set_put: "set (put k v ps) \<subseteq> insert (k, v) (set ps)"
  by (induction ps) auto

lemma map_of_foldl_put:
  "map_of (foldl (\<lambda>g x. put (f x) v g) g0 xs) k =
     (if k \<in> f ` set xs then Some v else map_of g0 k)"
  by (induction xs arbitrary: g0) (auto simp add: map_of_put)

lemma init_row_eq:
  "init_row = [(''08:00'', None), (''10:15'', None), (''14:00'', None), (''16:15'', None)]"
  by (simp add: init_row_def TIME_SLOTS_def)

lemma init_grid_eq:
  "init_grid =
     [(''MONDAY'', init_row), (''TUESDAY'', init_row), (''WEDNESDAY'', init_row),
      (''THURSDAY'', init_row), (''FRIDAY'', init_row), (''SATURDAY'', init_row)]"
  by (simp add: init_grid_def DAYS_OF_WEEK_def)

lemma init_days: "map fst init_grid = map day_value DAYS_OF_WEEK"
  by (simp add: init_grid_eq DAYS_OF_WEEK_def)

lemma init_rows: "(d, r) \<in> set init_grid \<Longrightarrow> map fst r = map slot_start_time TIME_SLOTS"
  by (auto simp add: init_grid_eq init_row_eq TIME_SLOTS_def)

lemma init_cell:
  "cell_at init_grid d t =
     (if d \<in> set (map day_value DAYS_OF_WEEK) \<and> t \<in> set (map slot_start_time TIME_SLOTS)
      then Some None else None)"
  by (simp add: cell_at_def init_grid_def init_row_def map_of_foldl_put)

lemma formatWeeklyGrid_Inr:
  "formatWeeklyGrid host w schedules = Inr g \<longleftrightarrow>
     (\<exists>st. fill host schedules \<lparr>the_grid = init_grid, row_protos = [], outside = w\<rparr> = Inr st
        \<and> the_grid st = g)"
  by (auto simp add: formatWeeklyGrid_def split: sum.splits)

subsection \<open>When the grid is returned\<close>

lemma place_returns:
  assumes "day_of_week s \<in> set OBJECT_PROTOTYPE_KEYS \<Longrightarrow>
      host (outside st) (day_of_week s) (start_time s) s \<noteq> Throws"
  shows "\<exists>st'. place host s st = Inr st'"
proof (cases "map_of (the_grid st) (day_of_week s)")
  case None
  then show ?thesis
    using assms by (auto simp add: place_def split: effect.splits)
next
  case (Some r)
  then show ?thesis by (simp add: place_def split: found.splits)
qed

lemma fill_returns:
  assumes "\<And>w s. s \<in> set ss \<Longrightarrow> day_of_week s \<in> set OBJECT_PROTOTYPE_KEYS \<Longrightarrow>
      host w (day_of_week s) (start_time s) s \<noteq> Throws"
  shows "\<exists>st'. fill host ss st = Inr st'"
  using assms
proof (induction ss arbitrary: st)
  case Nil
  then show ?case by simp
next
  case (Cons s ss)
  obtain st1 where "place host s st = Inr st1"
    using place_returns [of s host st] Cons.prems by auto
  moreover obtain st' where "fill host ss st1 = Inr st'"
    using Cons.IH [of st1] Cons.prems by auto
  ultimately show ?case by simp
qed

text \<open>
  The method returns a grid unless the host throws: on every list for a host that
  never throws, and for every host on a list none of whose days is the name of a
  member of \<^verbatim>\<open>Object.prototype\<close>.
\<close>

lemma grid_returned_unless_thrown:
  assumes "\<And>w s. s \<in> set schedules \<Longrightarrow> day_of_week s \<in> set OBJECT_PROTOTYPE_KEYS \<Longrightarrow>
      host w (day_of_week s) (start_time s) s \<noteq> Throws"
  shows "\<exists>g. formatWeeklyGrid host w schedules = Inr g"
  using fill_returns [of schedules host "\<lparr>the_grid = init_grid, row_protos = [], outside = w\<rparr>"]
    assms
  by (auto simp add: formatWeeklyGrid_Inr)

lemma grid_returned:
  assumes "\<And>s. s \<in> set schedules \<Longrightarrow> day_of_week s \<notin> set OBJECT_PROTOTYPE_KEYS"
  shows "\<exists>g. formatWeeklyGrid host w schedules = Inr g"
  using assms by (intro grid_returned_unless_thrown) auto

subsection \<open>The days of the grid\<close>

lemma place_days:
  "place host s st = Inr st' \<Longrightarrow> map fst (the_grid st') = map fst (the_grid st)"
  by (auto simp add: place_def keys_put_own
      split: option.splits if_splits found.splits effect.splits)

lemma fill_days:
  "fill host ss st = Inr st' \<Longrightarrow> map fst (the_grid st') = map fst (the_grid st)"
proof (induction ss arbitrary: st)
  case Nil
  then show ?case by simp
next
  case (Cons s ss)
  then show ?case by (auto split: sum.splits dest: place_days)
qed

text \<open>A grid that is returned has the six days of the catalog as its keys, in order.\<close>

lemma grid_days:
  "formatWeeklyGrid host w schedules = Inr g \<Longrightarrow> map fst g = map day_value DAYS_OF_WEEK"
  using fill_days [of host schedules "\<lparr>the_grid = init_grid, row_protos = [], outside = w\<rparr>"]
  by (auto simp add: formatWeeklyGrid_Inr init_days)

subsection \<open>The keys of a row\<close>

lemma place_rows:
  assumes "place host s st = Inr st'"
    and "start_time s \<notin> set OBJECT_PROTOTYPE_KEYS"
    and "row_protos st = []"
    and "\<And>d r. (d, r) \<in> set (the_grid st) \<Longrightarrow> map fst r = ks"
  shows "row_protos st' = [] \<and> (\<forall>(d, r) \<in> set (the_grid st'). map fst r = ks)"
proof (cases "map_of (the_grid st) (day_of_week s)")
  case None
  with assms show ?thesis
    by (auto simp add: place_def split: if_splits effect.splits)
next
  case (Some r0)
  then have r0: "map fst r0 = ks" using assms(4) map_of_SomeD by fastforce
  show ?thesis
  proof (cases "map_of r0 (start_time s)")
    case None
    then have "find_in_row r0 (map_of (row_protos st) (day_of_week s)) (start_time s) = Missing"
      using assms(2,3) by (simp add: find_in_row_def OBJECT_PROTOTYPE_KEYS_def)
    then have "st' = st"
      using assms(1) Some by (simp add: place_def)
    then show ?thesis using assms(3,4) by auto
  next
    case (Some c)
    then have "find_in_row r0 (map_of (row_protos st) (day_of_week s)) (start_time s) = Own"
      by (simp add: find_in_row_def)
    then have st': "st' = st\<lparr>the_grid := put (day_of_week s)
        (put (start_time s) (Some s) r0) (the_grid st)\<rparr>"
      using assms(1) \<open>map_of (the_grid st) (day_of_week s) = Some r0\<close> by (simp add: place_def)
    have "map fst (put (start_time s) (Some s) r0) = ks"
      using r0 Some by (simp add: keys_put_own)
    then show ?thesis
      using assms(3,4) set_put [of "day_of_week s" "put (start_time s) (Some s) r0" "the_grid st"]
      by (auto simp add: st')
  qed
qed

lemma fill_rows:
  assumes "fill host ss st = Inr st'"
    and "\<And>s. s \<in> set ss \<Longrightarrow> start_time s \<notin> set OBJECT_PROTOTYPE_KEYS"
    and "row_protos st = []"
    and "\<And>d r. (d, r) \<in> set (the_grid st) \<Longrightarrow> map fst r = ks"
  shows "\<forall>(d, r) \<in> set (the_grid st'). map fst r = ks"
  using assms
proof (induction ss arbitrary: st)
  case Nil
  then show ?case by auto
next
  case (Cons s ss)
  from Cons.prems(1) obtain st1 where p: "place host s st = Inr st1"
    and f: "fill host ss st1 = Inr st'"
    by (auto split: sum.splits)
  have 1: "row_protos st1 = [] \<and> (\<forall>(d, r) \<in> set (the_grid st1). map fst r = ks)"
    using place_rows [OF p _ Cons.prems(3,4)] Cons.prems(2) by simp
  show ?case
    using Cons.IH [OF f] Cons.prems(2) 1 by auto
qed

text \<open>
  When no start time of the input is the name of a member of \<^verbatim>\<open>Object.prototype\<close>
  (no string of the form HH:MM is), every row of a grid that is returned has the four
  slot starts of the catalog as its keys, in order.
\<close>

lemma grid_rows_without_inherited_names:
  assumes "formatWeeklyGrid host w schedules = Inr g"
    and "\<And>s. s \<in> set schedules \<Longrightarrow> start_time s \<notin> set OBJECT_PROTOTYPE_KEYS"
    and "(d, r) \<in> set g"
  shows "map fst r = map slot_start_time TIME_SLOTS"
proof -
  from assms(1) obtain st
    where f: "fill host schedules \<lparr>the_grid = init_grid, row_protos = [], outside = w\<rparr> = Inr st"
      and g: "the_grid st = g"
    by (auto simp add: formatWeeklyGrid_Inr)
  have "\<forall>(d, r) \<in> set (the_grid st). map fst r = map slot_start_time TIME_SLOTS"
    using fill_rows [OF f assms(2)] init_rows by simp
  then show ?thesis using assms(3) g by auto
qed

subsection \<open>The cells of the catalog\<close>

lemma place_cell:
  assumes "place host s st = Inr st'" and "cell_at (the_grid st) d t = Some c"
  shows "cell_at (the_grid st') d t =
     (if day_of_week s = d \<and> start_time s = t then Some (Some s) else Some c)"
proof (cases "map_of (the_grid st) (day_of_week s)")
  case None
  with assms show ?thesis
    by (auto simp add: place_def cell_at_def split: if_splits effect.splits)
next
  case (Some r)
  show ?thesis
  proof (cases "day_of_week s = d \<and> start_time s = t")
    case True
    then have "find_in_row r (map_of (row_protos st) (day_of_week s)) (start_time s) = Own"
      using assms(2) Some by (simp add: find_in_row_def cell_at_def)
    then show ?thesis
      using assms(1) Some True by (auto simp add: place_def cell_at_def map_of_put)
  next
    case False
    then show ?thesis
      using assms Some
      by (auto simp add: place_def cell_at_def map_of_put split: found.splits)
  qed
qed

lemma fill_cell:
  assumes "fill host ss st = Inr st'" and "cell_at (the_grid st) d t = Some c"
  shows "cell_at (the_grid st') d t =
     (case filter (\<lambda>s. day_of_week s = d \<and> start_time s = t) ss of
        [] \<Rightarrow> Some c
      | _ \<Rightarrow> Some (Some (last (filter (\<lambda>s. day_of_week s = d \<and> start_time s = t) ss))))"
  using assms
proof (induction ss arbitrary: st c)
  case Nil
  then show ?case by simp
next
  case (Cons s ss)
  from Cons.prems(1) obtain st1 where p: "place host s st = Inr st1"
    and f: "fill host ss st1 = Inr st'"
    by (auto split: sum.splits)
  let ?c1 = "if day_of_week s = d \<and> start_time s = t then Some s else c"
  have c1: "cell_at (the_grid st1) d t = Some ?c1"
    using place_cell [OF p Cons.prems(2)] by simp
  show ?case
    using Cons.IH [OF f c1] by (auto split: list.splits)
qed

text \<open>
  A cell of the catalog that no record of the input maps to is still null in a grid
  that is returned.
\<close>

lemma grid_cell_untouched:
  assumes "formatWeeklyGrid host w schedules = Inr g"
    and "d \<in> set (map day_value DAYS_OF_WEEK)" and "t \<in> set (map slot_start_time TIME_SLOTS)"
    and "filter (\<lambda>s. day_of_week s = d \<and> start_time s = t) schedules = []"
  shows "cell_at g d t = Some None"
proof -
  from assms(1) obtain st
    where f: "fill host schedules \<lparr>the_grid = init_grid, row_protos = [], outside = w\<rparr> = Inr st"
      and g: "the_grid st = g"
    by (auto simp add: formatWeeklyGrid_Inr)
  have "cell_at (the_grid \<lparr>the_grid = init_grid, row_protos = [], outside = w\<rparr>) d t = Some None"
    using assms(2,3) by (simp add: init_cell)
  from fill_cell [OF f this] assms(4) g show ?thesis by simp
qed

text \<open>
  C5. Whenever the method returns a grid, which it does unless the host throws a
  TypeError, and at least one record of the input has the day \<open>d\<close> of the catalog
  and the slot start \<open>t\<close> of the catalog, the cell \<^verbatim>\<open>grid[d][t]\<close> holds the last
  such record of the input: of two records for the same day and slot start, the later
  one. The other records of the list may be any records.
\<close>

theorem grid_last_write_wins:
  assumes "formatWeeklyGrid host w schedules = Inr g"
    and "d \<in> set (map day_value DAYS_OF_WEEK)" and "t \<in> set (map slot_start_time TIME_SLOTS)"
    and "filter (\<lambda>s. day_of_week s = d \<and> start_time s = t) schedules \<noteq> []"
  shows "cell_at g d t =
     Some (Some (last (filter (\<lambda>s. day_of_week s = d \<and> start_time s = t) schedules)))"
proof -
  from assms(1) obtain st
    where f: "fill host schedules \<lparr>the_grid = init_grid, row_protos = [], outside = w\<rparr> = Inr st"
      and g: "the_grid st = g"
    by (auto simp add: formatWeeklyGrid_Inr)
  have "cell_at (the_grid \<lparr>the_grid = init_grid, row_protos = [], outside = w\<rparr>) d t = Some None"
    using assms(2,3) by (simp add: init_cell)
  from fill_cell [OF f this] assms(4) g show ?thesis
    by (simp split: list.splits)
qed

lemma standard_host_constructor:
  "standard_host pristine ''constructor'' ''08:00'' s = Nothing"
  by (simp add: standard_host_def pristine_def OBJECT_STATICS_def FUNCTION_PROTOTYPE_KEYS_def
      OBJECT_PROTOTYPE_FUNCTIONS_def schedule_owns_def)

theorem grid_last_write_wins_witness:
  "map_sum id (\<lambda>g. cell_at g ''MONDAY'' ''08:00'')
     (formatWeeklyGrid standard_host pristine
        [lesson 1 ''constructor'' ''08:00'', lesson 2 ''MONDAY'' ''__proto__'',
         lesson 3 ''MONDAY'' ''08:00'', lesson 4 ''MONDAY'' ''08:00''])
   = Inr (Some (Some (lesson 4 ''MONDAY'' ''08:00'')))"
proof -
  let ?ss = "[lesson 1 ''constructor'' ''08:00'', lesson 2 ''MONDAY'' ''__proto__'',
         lesson 3 ''MONDAY'' ''08:00'', lesson 4 ''MONDAY'' ''08:00'']"
  have "\<exists>g. formatWeeklyGrid standard_host pristine ?ss = Inr g"
    by (simp add: formatWeeklyGrid_def place_def find_in_row_def init_grid_eq init_row_eq
        lesson_def OBJECT_PROTOTYPE_FUNCTIONS_def OBJECT_PROTOTYPE_KEYS_def
        standard_host_constructor [unfolded lesson_def])
  then obtain g where g: "formatWeeklyGrid standard_host pristine ?ss = Inr g" ..
  have d: "''MONDAY'' \<in> set (map day_value DAYS_OF_WEEK)"
    by (simp add: DAYS_OF_WEEK_def)
  have t: "''08:00'' \<in> set (map slot_start_time TIME_SLOTS)"
    by (simp add: TIME_SLOTS_def)
  have f: "filter (\<lambda>s. day_of_week s = ''MONDAY'' \<and> start_time s = ''08:00'') ?ss
      = [lesson 3 ''MONDAY'' ''08:00'', lesson 4 ''MONDAY'' ''08:00'']"
    by (simp add: lesson_def)
  have "cell_at g ''MONDAY'' ''08:00'' = Some (Some (lesson 4 ''MONDAY'' ''08:00''))"
    using grid_last_write_wins [OF g d t] f by simp
  with g show ?thesis by simp
qed


lemmas grid_eval = formatWeeklyGrid_def place_def find_in_row_def init_grid_eq init_row_eq
  lesson_def OBJECT_PROTOTYPE_FUNCTIONS_def

text \<open>
  C3 fails on the code at a record of Monday whose start time is \<^verbatim>\<open>toString\<close>:
  the test \<^verbatim>\<open>grid[d][t] !== undefined\<close> finds the function inherited from
  \<^verbatim>\<open>Object.prototype\<close>, the assignment creates the property, and the row of
  Monday has five keys, not the four slot starts of the catalog.
\<close>

theorem grid_row_gains_inherited_key:
  "map_sum id (\<lambda>g. map_option (map fst) (map_of g ''MONDAY''))
      (formatWeeklyGrid host w [lesson 1 ''MONDAY'' ''toString''])
    = Inr (Some [''08:00'', ''10:15'', ''14:00'', ''16:15'', ''toString''])"
  by (simp add: grid_eval)

text \<open>
  C4 fails on the code at a record of Tuesday whose start time is \<^verbatim>\<open>valueOf\<close>:
  the start time is no slot start of the catalog, and the record is not left out but
  assigned to \<^verbatim>\<open>grid["TUESDAY"]["valueOf"]\<close>.
\<close>

theorem grid_keeps_unmatched_record:
  "''valueOf'' \<notin> set (map slot_start_time TIME_SLOTS)
   \<and> map_sum id (\<lambda>g. cell_at g ''TUESDAY'' ''valueOf'')
      (formatWeeklyGrid host w [lesson 1 ''TUESDAY'' ''valueOf''])
    = Inr (Some (Some (lesson 1 ''TUESDAY'' ''valueOf'')))"
  by (simp add: grid_eval cell_at_def TIME_SLOTS_def)

text \<open>
  The example of the specification: one record of Monday at 08:00 is in its cell, and
  the grid is otherwise the initial one.
\<close>

lemma grid_single_record:
  "formatWeeklyGrid host w [lesson 1 ''MONDAY'' ''08:00''] =
     Inr (put ''MONDAY'' (put ''08:00'' (Some (lesson 1 ''MONDAY'' ''08:00'')) init_row) init_grid)"
  by (simp add: grid_eval)

text \<open>
  Two records that the method does not place and that do not stop it: under the day
  \<^verbatim>\<open>constructor\<close> the value reached is the function \<^verbatim>\<open>Object\<close>, which has no
  property \<^verbatim>\<open>08:00\<close>; the start time \<^verbatim>\<open>__proto__\<close> makes the record the
  prototype of the row of Monday and leaves the own properties of the row as they
  are.
\<close>

lemma grid_unplaced_records:
  "formatWeeklyGrid standard_host pristine
      [lesson 1 ''constructor'' ''08:00'', lesson 2 ''MONDAY'' ''__proto__''] = Inr init_grid"
  by (simp add: grid_eval OBJECT_PROTOTYPE_KEYS_def
      standard_host_constructor [unfolded lesson_def])

text \<open>
  A record that stops the method: under the day \<^verbatim>\<open>constructor\<close> and the start time
  \<^verbatim>\<open>name\<close> the assignment is to the read-only name of the function
  \<^verbatim>\<open>Object\<close>.
\<close>

lemma grid_type_error:
  "formatWeeklyGrid standard_host pristine [lesson 1 ''constructor'' ''name''] = Inl TypeError"
  by (simp add: grid_eval OBJECT_PROTOTYPE_KEYS_def standard_host_def pristine_def)

text \<open>
  The same start time after a record has taken the place of
  \<^verbatim>\<open>Object.prototype.toString\<close>: under the day \<^verbatim>\<open>toString\<close> the value reached is
  that record, which has no property \<^verbatim>\<open>name\<close>, and nothing is assigned.
\<close>

lemma grid_after_replaced_builtin:
  "formatWeeklyGrid standard_host pristine
      [lesson 1 ''__proto__'' ''toString'', lesson 2 ''toString'' ''name''] = Inr init_grid"
  by (simp add: grid_eval OBJECT_PROTOTYPE_KEYS_def standard_host_def pristine_def
      schedule_owns_def SCHEDULE_KEYS_def)


text \<open>
  After that, the fields of the record are found through the row: a later record of
  Monday whose start time is \<^verbatim>\<open>id\<close> is assigned to a new key of the row.
\<close>

lemma grid_record_as_prototype:
  "map_sum id (\<lambda>g. map_option (map fst) (map_of g ''MONDAY''))
      (formatWeeklyGrid host w [lesson 2 ''MONDAY'' ''__proto__'', lesson 3 ''MONDAY'' ''id''])
    = Inr (Some [''08:00'', ''10:15'', ''14:00'', ''16:15'', ''id''])"
  by (simp add: grid_eval schedule_owns_def SCHEDULE_KEYS_def)

section \<open>Properties of the arithmetic\<close>

text \<open>
  \<open>ilog2\<close> is the floor of the binary logarithm, and a rational that has a
  significand of 53 bits, an exponent from \<open>-1074\<close> on and a magnitude below
  \<open>2 ^ 1024\<close> is its own rounding.
\<close>

lemma quotient_of_abs_pos:
  assumes "q \<noteq> 0"
  shows "0 < fst (quotient_of \<bar>q\<bar>)" and "0 < snd (quotient_of \<bar>q\<bar>)"
    and "\<bar>q\<bar> = of_int (fst (quotient_of \<bar>q\<bar>)) / of_int (snd (quotient_of \<bar>q\<bar>))"
proof -
  obtain a b where ab: "quotient_of \<bar>q\<bar> = (a, b)" by (cases "quotient_of \<bar>q\<bar>")
  have b: "0 < b" using quotient_of_denom_pos [OF ab] .
  have q: "\<bar>q\<bar> = of_int a / of_int b" using quotient_of_div [OF ab] .
  have "0 < \<bar>q\<bar>" using assms by simp
  then have "0 < a" using b q by (simp add: zero_less_divide_iff)
  show "0 < fst (quotient_of \<bar>q\<bar>)" using \<open>0 < a\<close> ab by simp
  show "0 < snd (quotient_of \<bar>q\<bar>)" using b ab by simp
  show "\<bar>q\<bar> = of_int (fst (quotient_of \<bar>q\<bar>)) / of_int (snd (quotient_of \<bar>q\<bar>))"
    using q ab by simp
qed

lemma ilog2_lower:
  assumes "q \<noteq> 0"
  shows "2 powi (ilog2 q) \<le> \<bar>q\<bar>"
proof -
  define a where "a = fst (quotient_of \<bar>q\<bar>)"
  define b where "b = snd (quotient_of \<bar>q\<bar>)"
  define k where "k = bitlen a - bitlen b"
  have a: "0 < a" and b: "0 < b" and q: "\<bar>q\<bar> = of_int a / of_int b"
    using quotient_of_abs_pos [OF assms] by (simp_all add: a_def b_def)
  show ?thesis
  proof (cases "(2::rat) powi k \<le> \<bar>q\<bar>")
    case True
    then show ?thesis by (simp add: ilog2_def Let_def a_def b_def k_def)
  next
    case False
    have "bitlen a \<noteq> 0" using a by (simp add: bitlen_eq_zero_iff)
    then have la: "1 \<le> bitlen a" using bitlen_nonneg [of a] by linarith
    have lb: "0 \<le> bitlen b" by (rule bitlen_nonneg)
    have "(2::int) ^ nat (bitlen a - 1) \<le> a" using bitlen_bounds [OF a] by simp
    then have 1: "(2::rat) ^ nat (bitlen a - 1) \<le> of_int a"
      by (metis of_int_le_iff of_int_numeral of_int_power)
    have "b < 2 ^ nat (bitlen b)" using bitlen_bounds [OF b] by simp
    then have 2: "of_int b \<le> (2::rat) ^ nat (bitlen b)"
      by (metis less_imp_le of_int_le_iff of_int_numeral of_int_power)
    have "k - 1 = int (nat (bitlen a - 1)) - int (nat (bitlen b))"
      using la lb by (simp add: k_def)
    then have "(2::rat) powi (k - 1) = 2 powi int (nat (bitlen a - 1)) / 2 powi int (nat (bitlen b))"
      by (simp add: power_int_diff)
    then have "(2::rat) powi (k - 1) = 2 ^ nat (bitlen a - 1) / 2 ^ nat (bitlen b)"
      by (simp only: power_int_of_nat)
    also have "\<dots> \<le> of_int a / 2 ^ nat (bitlen b)"
      using 1 by (simp add: divide_right_mono)
    also have "\<dots> \<le> of_int a / of_int b"
      using 2 a b by (simp add: frac_le)
    finally have "(2::rat) powi (k - 1) \<le> \<bar>q\<bar>" using q by simp
    with False show ?thesis by (simp add: ilog2_def Let_def a_def b_def k_def)
  qed
qed

lemma ilog2_upper:
  assumes "q \<noteq> 0"
  shows "\<bar>q\<bar> < 2 powi (ilog2 q + 1)"
proof -
  define a where "a = fst (quotient_of \<bar>q\<bar>)"
  define b where "b = snd (quotient_of \<bar>q\<bar>)"
  define k where "k = bitlen a - bitlen b"
  have a: "0 < a" and b: "0 < b" and q: "\<bar>q\<bar> = of_int a / of_int b"
    using quotient_of_abs_pos [OF assms] by (simp_all add: a_def b_def)
  show ?thesis
  proof (cases "(2::rat) powi k \<le> \<bar>q\<bar>")
    case False
    then show ?thesis by (simp add: ilog2_def Let_def a_def b_def k_def)
  next
    case True
    have la: "0 \<le> bitlen a" by (rule bitlen_nonneg)
    have "bitlen b \<noteq> 0" using b by (simp add: bitlen_eq_zero_iff)
    then have lb: "1 \<le> bitlen b" using bitlen_nonneg [of b] by linarith
    have "a < 2 ^ nat (bitlen a)" using bitlen_bounds [OF a] by simp
    then have 1: "of_int a < (2::rat) ^ nat (bitlen a)"
      by (metis of_int_less_iff of_int_numeral of_int_power)
    have "(2::int) ^ nat (bitlen b - 1) \<le> b" using bitlen_bounds [OF b] by simp
    then have 2: "(2::rat) ^ nat (bitlen b - 1) \<le> of_int b"
      by (metis of_int_le_iff of_int_numeral of_int_power)
    have "\<bar>q\<bar> = of_int a / of_int b" by (rule q)
    also have "\<dots> < 2 ^ nat (bitlen a) / of_int b"
      using 1 b by (simp add: divide_strict_right_mono)
    also have "\<dots> \<le> 2 ^ nat (bitlen a) / 2 ^ nat (bitlen b - 1)"
      using 2 by (simp add: frac_le)
    also have "\<dots> = 2 powi int (nat (bitlen a)) / 2 powi int (nat (bitlen b - 1))"
      by (simp only: power_int_of_nat)
    also have "\<dots> = (2::rat) powi (int (nat (bitlen a)) - int (nat (bitlen b - 1)))"
      by (simp add: power_int_diff)
    also have "int (nat (bitlen a)) - int (nat (bitlen b - 1)) = k + 1"
      using la lb by (simp add: k_def)
    finally have "\<bar>q\<bar> < 2 powi (k + 1)" .
    with True show ?thesis by (simp add: ilog2_def Let_def a_def b_def k_def)
  qed
qed

lemma round_half_even_of_int: "round_half_even (of_int n) = n"
  by (simp add: round_half_even_def)

lemma round_double_exact:
  assumes q: "q = of_int m * 2 powi e" and m: "\<bar>m\<bar> < 2 ^ 53" and e: "- 1074 \<le> e"
    and bound: "\<bar>q\<bar> < 2 ^ 1024"
  shows "round_double q = Fin q"
proof (cases "q = 0")
  case True
  then show ?thesis by (simp add: round_double_def)
next
  case False
  define e0 where "e0 = max (ilog2 q - 52) (- 1074)"
  have "(2::rat) powi (ilog2 q) \<le> \<bar>q\<bar>" using ilog2_lower [OF False] .
  also have "\<bar>q\<bar> = of_int \<bar>m\<bar> * 2 powi e" by (simp add: q abs_mult)
  also have "\<dots> < 2 ^ 53 * 2 powi e"
  proof -
    have "(of_int \<bar>m\<bar> :: rat) < 2 ^ 53" using m by (metis of_int_less_iff of_int_numeral of_int_power)
    then show ?thesis by (simp add: mult_strict_right_mono)
  qed
  also have "\<dots> = 2 powi (53 + e)" by (simp add: power_int_add)
  finally have lt: "(2::rat) powi (ilog2 q) < 2 powi (53 + e)" .
  have "ilog2 q < 53 + e"
  proof (rule ccontr)
    assume "\<not> ilog2 q < 53 + e"
    then have "(2::rat) powi (53 + e) \<le> 2 powi (ilog2 q)"
      by (intro power_int_increasing) simp_all
    with lt show False by simp
  qed
  then have le: "e0 \<le> e" using e by (simp add: e0_def)
  define n where "n = m * 2 ^ nat (e - e0)"
  have "q / 2 powi e0 = of_int m * 2 powi (e - e0)"
    by (simp add: q power_int_diff)
  also have "\<dots> = of_int m * 2 powi int (nat (e - e0))" using le by simp
  also have "\<dots> = of_int n" by (simp only: power_int_of_nat n_def of_int_mult of_int_power of_int_numeral)
  finally have div: "q / 2 powi e0 = of_int n" .
  have mul: "of_int n * 2 powi e0 = q"
    using div by (simp add: field_simps)
  have "round_double q =
      (let r = of_int (round_half_even (q / 2 powi e0)) * 2 powi e0
        in if 2 ^ 1024 \<le> r then PInf else if r \<le> - (2 ^ 1024) then NInf else Fin r)"
    using False by (simp add: round_double_def e0_def Let_def)
  also have "\<dots> = Fin q"
    using bound by (simp add: div round_half_even_of_int mul Let_def abs_less_iff)
  finally show ?thesis .
qed

lemma round_double_int:
  assumes "\<bar>n\<bar> < 2 ^ 53"
  shows "round_double (of_int n) = Fin (of_int n)"
proof -
  have "\<bar>of_int n :: rat\<bar> < 2 ^ 53" using assms by (metis of_int_abs of_int_less_iff of_int_numeral of_int_power)
  then have b: "\<bar>of_int n :: rat\<bar> < 2 ^ 1024" by (rule less_trans) simp
  have q: "(of_int n :: rat) = of_int n * 2 powi 0" by simp
  show ?thesis by (rule round_double_exact [OF q assms _ b]) simp
qed

lemma round_double_quarters:
  assumes "\<bar>j\<bar> < 2 ^ 53"
  shows "round_double (of_int j / 4) = Fin (of_int j / 4)"
proof -
  have "\<bar>of_int j :: rat\<bar> < 2 ^ 53" using assms by (metis of_int_abs of_int_less_iff of_int_numeral of_int_power)
  then have b: "\<bar>of_int j / 4 :: rat\<bar> < 2 ^ 1024" by simp
  have q: "(of_int j / 4 :: rat) = of_int j * 2 powi (- 2)"
    by (simp add: power_int_minus)
  show ?thesis by (rule round_double_exact [OF q assms _ b]) simp
qed

section \<open>Properties of the duration calculator\<close>

lemma digit_char_props:
  assumes "n \<le> 9"
  shows "is_digit (digit_char n)" and "digit_val (digit_char n) = n"
  using assms by (simp_all add: is_digit_def digit_char_def digit_val_def)

lemma example_clock_hhmm:
  assumes "h < 24" and "m < 60"
  shows "example_clock t0 (''2000-01-01T'' @ hhmm h m @ '':00'')
     = Fin (of_int (t0 + 60000 * (60 * int h + int m)))"
proof -
  have d: "h div 10 \<le> 9" "h mod 10 \<le> 9" "m div 10 \<le> 9" "m mod 10 \<le> 9"
    using assms by simp_all
  have "10 * (h div 10) + h mod 10 = h" "10 * (m div 10) + m mod 10 = m" by simp_all
  then show ?thesis
    using assms by (simp add: example_clock_def hhmm_def digit_char_props [OF d(1)]
        digit_char_props [OF d(2)] digit_char_props [OF d(3)] digit_char_props [OF d(4)])
qed

lemma example_clock_reads: "reads_local_time (example_clock t0) t0"
  unfolding reads_local_time_def using example_clock_hhmm by blast

lemma duration_rounded:
  assumes "reads_local_time getTime t0" and "h1 < 24" and "m1 < 60" and "h2 < 24" and "m2 < 60"
  shows "calculateDuration getTime (hhmm h1 m1) (hhmm h2 m2)
     = round_double (of_int (int (60 * h2 + m2) - int (60 * h1 + m1)) / 60)"
proof -
  define d where "d = int (60 * h2 + m2) - int (60 * h1 + m1)"
  have s: "getTime (''2000-01-01T'' @ hhmm h1 m1 @ '':00'')
      = Fin (of_int (t0 + 60000 * (60 * int h1 + int m1)))"
    and e: "getTime (''2000-01-01T'' @ hhmm h2 m2 @ '':00'')
      = Fin (of_int (t0 + 60000 * (60 * int h2 + int m2)))"
    using assms by (simp_all add: reads_local_time_def)
  have "\<bar>d\<bar> < 1440" using assms(2-5) by (simp add: d_def)
  then have "\<bar>60000 * d\<bar> < 60000 * 1440" by (simp add: abs_mult)
  then have "\<bar>60000 * d\<bar> < 2 ^ 53" by simp
  then have r: "round_double (of_int (60000 * d)) = Fin (of_int (60000 * d))"
    by (rule round_double_int)
  have "(of_int (t0 + 60000 * (60 * int h2 + int m2)) :: rat)
        + - of_int (t0 + 60000 * (60 * int h1 + int m1)) = of_int (60000 * d)"
    by (simp add: d_def)
  then have "js_sub (getTime (''2000-01-01T'' @ hhmm h2 m2 @ '':00''))
       (getTime (''2000-01-01T'' @ hhmm h1 m1 @ '':00'')) = Fin (of_int (60000 * d))"
    unfolding s e js_sub_def using r by simp
  then have "calculateDuration getTime (hhmm h1 m1) (hhmm h2 m2)
      = round_double (of_int (60000 * d) / (1000 * 60 * 60))"
    by (simp add: calculateDuration_def Let_def)
  also have "(of_int (60000 * d) / (1000 * 60 * 60) :: rat) = of_int d / 60" by simp
  finally show ?thesis by (simp add: d_def)
qed



lemma v1: "round_double (20 / 60) = Fin (6004799503160661 / 18014398509481984)"
  by code_simp

lemma hhmm_examples:
  "''08:00'' = hhmm 8 0" "''10:00'' = hhmm 10 0" "''10:15'' = hhmm 10 15"
  "''12:15'' = hhmm 12 15" "''08:20'' = hhmm 8 20" "''11:15'' = hhmm 11 15"
  by code_simp+

lemma duration_quarters:
  assumes "reads_local_time getTime t0" and "h1 < 24" and "m1 < 60" and "h2 < 24" and "m2 < 60"
    and "(15::int) dvd int (60 * h2 + m2) - int (60 * h1 + m1)"
  shows "calculateDuration getTime (hhmm h1 m1) (hhmm h2 m2)
     = Fin (of_int (int (60 * h2 + m2) - int (60 * h1 + m1)) / 60)"
proof -
  define d where "d = int (60 * h2 + m2) - int (60 * h1 + m1)"
  from assms(6) obtain j where j: "d = 15 * j" by (auto simp add: d_def)
  have "\<bar>d\<bar> < 1440" using assms(2-5) by (simp add: d_def)
  then have "\<bar>j\<bar> < 2 ^ 53" using j by simp
  then have "round_double (of_int j / 4) = Fin (of_int j / 4)" by (rule round_double_quarters)
  moreover have "(of_int d / 60 :: rat) = of_int j / 4" by (simp add: j)
  ultimately have "round_double (of_int d / 60) = Fin (of_int d / 60)" by simp
  then show ?thesis using duration_rounded [OF assms(1-5)] by (simp add: d_def)
qed

lemma example_durations:
  "calculateDuration (example_clock t0) ''08:00'' ''10:00'' = Fin 2"
  "calculateDuration (example_clock t0) ''10:15'' ''12:15'' = Fin 2"
  "calculateDuration (example_clock t0) ''10:15'' ''11:15'' = Fin 1"
  using duration_quarters [OF example_clock_reads, of 8 0 10 0 t0]
    duration_quarters [OF example_clock_reads, of 10 15 12 15 t0]
    duration_quarters [OF example_clock_reads, of 10 15 11 15 t0]
  by (simp_all add: hhmm_examples [symmetric])

text \<open>
  C9, as the specification states it, fails: from 08:00 to 08:20 the difference is a
  third of an hour, which no double is; the method returns the double nearest to it,
  6004799503160661 / 2 ^ 54.
\<close>

theorem duration_counterexample:
  "calculateDuration (example_clock 946684800000) ''08:00'' ''08:20''
     = Fin (6004799503160661 / 18014398509481984)
   \<and> Fin (6004799503160661 / 18014398509481984) \<noteq> Fin (20 / 60)"
  using duration_rounded [OF example_clock_reads, of 8 0 8 20 946684800000] v1
  by (simp add: hhmm_examples [symmetric])

text \<open>
  C9, amended. For a host that reads the times of 2000-01-01 as local time, and for
  every pair of valid HH:MM times with the start before the end, the method returns
  the double nearest to the difference in hours; when the difference is a multiple
  of a quarter of an hour the result is exactly the difference in hours (2 for 10:15
  to 12:15 and for 08:00 to 10:00).
\<close>

theorem duration_rounded_hours:
  assumes "reads_local_time getTime t0" and "h1 < 24" and "m1 < 60" and "h2 < 24" and "m2 < 60"
    and "60 * h1 + m1 < 60 * h2 + m2"
  shows "calculateDuration getTime (hhmm h1 m1) (hhmm h2 m2)
       = round_double (of_int (int (60 * h2 + m2) - int (60 * h1 + m1)) / 60)
     \<and> ((15::int) dvd int (60 * h2 + m2) - int (60 * h1 + m1) \<longrightarrow>
         calculateDuration getTime (hhmm h1 m1) (hhmm h2 m2)
           = Fin (of_int (int (60 * h2 + m2) - int (60 * h1 + m1)) / 60))"
  using duration_rounded [OF assms(1-5)] duration_quarters [OF assms(1-5)] by blast

theorem duration_rounded_hours_witness:
  "calculateDuration (example_clock 946684800000) ''10:15'' ''12:15'' = Fin 2
   \<and> calculateDuration (example_clock 946684800000) ''08:00'' ''10:00'' = Fin 2"
proof -
  have r: "reads_local_time (example_clock 946684800000) 946684800000"
    by (rule example_clock_reads)
  have "calculateDuration (example_clock 946684800000) (hhmm 10 15) (hhmm 12 15) = Fin 2"
    using duration_rounded_hours [OF r, of 10 15 12 15, THEN conjunct2] by simp
  moreover have "calculateDuration (example_clock 946684800000) (hhmm 8 0) (hhmm 10 0) = Fin 2"
    using duration_rounded_hours [OF r, of 8 0 10 0, THEN conjunct2] by simp
  ultimately show ?thesis by (simp add: hhmm_examples [symmetric])
qed


section \<open>Properties of the statistics aggregator\<close>

lemma keys_put_new: "map_of ps k = None \<Longrightarrow> map fst (put k v ps) = map fst ps @ [k]"
  by (induction ps) (auto split: if_splits)

lemma keys_put:
  "map fst (put k v ps) = (if k \<in> set (map fst ps) then map fst ps else map fst ps @ [k])"
proof (cases "map_of ps k")
  case None
  then show ?thesis using keys_put_new [OF None, of v] by (simp add: map_of_eq_None_iff)
next
  case (Some c)
  then show ?thesis using keys_put_own [OF Some, of v]
    by (metis domI dom_map_of_conv_image_fst list.set_map)
qed

lemma keys_credit:
  "map fst (credit k n d h) = (if k \<in> set (map fst h) then map fst h else map fst h @ [k])"
  by (simp add: credit_def Let_def keys_put)

lemma tally_fst:
  "fst (foldl (tally gt) acc ss) = hours_by gt teacher_id teacher_name (fst acc) ss"
  by (induction ss arbitrary: acc) (simp_all add: hours_by_def tally_def Let_def)

lemma tally_snd:
  "snd (foldl (tally gt) acc ss) = hours_by gt class_id class_name (snd acc) ss"
  by (induction ss arbitrary: acc) (simp_all add: hours_by_def tally_def Let_def)

lemma keys_hours_by:
  "map fst (hours_by gt key label h ss) =
     map fst h @ filter (\<lambda>k. k \<notin> set (map fst h)) (first_seen (map key ss))"
proof (induction ss arbitrary: h)
  case Nil
  then show ?case by (simp add: hours_by_def)
next
  case (Cons s ss)
  let ?h1 = "credit (key s) (label s) (calculateDuration gt (start_time s) (end_time s)) h"
  have step: "hours_by gt key label h (s # ss) = hours_by gt key label ?h1 ss"
    by (simp add: hours_by_def)
  show ?case
  proof (cases "key s \<in> set (map fst h)")
    case True
    then have k1: "map fst ?h1 = map fst h" by (simp add: keys_credit)
    have "filter (\<lambda>k. k \<notin> set (map fst h)) (filter (\<lambda>j. j \<noteq> key s) (first_seen (map key ss)))
        = filter (\<lambda>k. k \<notin> set (map fst h)) (first_seen (map key ss))"
      using True by (auto intro: filter_cong)
    then show ?thesis using True by (simp add: step Cons.IH k1)
  next
    case False
    then have k1: "map fst ?h1 = map fst h @ [key s]" by (simp add: keys_credit)
    have "filter (\<lambda>k. k \<notin> set (map fst h)) (filter (\<lambda>j. j \<noteq> key s) (first_seen (map key ss)))
        = filter (\<lambda>k. k \<notin> set (map fst h @ [key s])) (first_seen (map key ss))"
      by (auto intro: filter_cong)
    then show ?thesis using False by (simp add: step Cons.IH k1)
  qed
qed

lemma set_first_seen: "set (first_seen xs) = set xs"
  by (induction xs) auto

lemma distinct_first_seen: "distinct (first_seen xs)"
  by (induction xs) auto

lemma map_of_credit:
  "map_of (credit k n d h) =
     (map_of h)(k \<mapsto> (case map_of h k of None \<Rightarrow> \<lparr>name = n, hours = js_add (Fin 0) d\<rparr>
                          | Some e \<Rightarrow> e\<lparr>hours := js_add (hours e) d\<rparr>))"
  by (simp add: credit_def Let_def map_of_put split: option.splits)

lemma map_of_hours_by:
  "map_of (hours_by gt key label h ss) k =
     (case filter (\<lambda>s. key s = k) ss of
        [] \<Rightarrow> map_of h k
      | r # rs \<Rightarrow>
          Some \<lparr>name = (case map_of h k of None \<Rightarrow> label r | Some e \<Rightarrow> name e),
                hours = foldl js_add (case map_of h k of None \<Rightarrow> Fin 0 | Some e \<Rightarrow> hours e)
                  (map (\<lambda>s. calculateDuration gt (start_time s) (end_time s)) (r # rs))\<rparr>)"
proof (induction ss arbitrary: h)
  case Nil
  then show ?case by (simp add: hours_by_def)
next
  case (Cons s ss)
  let ?h1 = "credit (key s) (label s) (calculateDuration gt (start_time s) (end_time s)) h"
  have step: "hours_by gt key label h (s # ss) = hours_by gt key label ?h1 ss"
    by (simp add: hours_by_def)
  show ?case
    unfolding step Cons.IH
    by (cases "key s = k") (auto simp add: map_of_credit split: list.splits option.splits)
qed

lemma snd_of_distinct:
  assumes "distinct (map fst h)" and "set xs \<subseteq> set h"
  shows "map snd xs = map (\<lambda>k. the (map_of h k)) (map fst xs)"
  using assms(2)
proof (induction xs)
  case Nil
  then show ?case by simp
next
  case (Cons x xs)
  then have "x \<in> set h" by simp
  then have "map_of h (fst x) = Some (snd x)"
    using assms(1) map_of_eq_Some_iff [of h "fst x" "snd x"] by simp
  with Cons show ?case by simp
qed

lemma map_insort_key: "map f (insort_key f x xs) = insort (f x) (map f xs)"
  by (induction xs) simp_all

lemma map_sort_key: "map f (sort_key f xs) = sort (map f xs)"
  by (induction xs) (simp_all add: map_insort_key)

lemma object_values_distinct:
  assumes "distinct (map fst h)"
  shows "object_values h = map (\<lambda>k. the (map_of h k)) (key_order (map fst h))"
proof -
  let ?xs = "sort_key fst (filter (\<lambda>p. is_array_index (fst p)) h)
              @ filter (\<lambda>p. \<not> is_array_index (fst p)) h"
  have "set ?xs \<subseteq> set h" by auto
  then have 1: "map snd ?xs = map (\<lambda>k. the (map_of h k)) (map fst ?xs)"
    by (rule snd_of_distinct [OF assms])
  have 2: "map fst ?xs = key_order (map fst h)"
    by (simp add: key_order_def map_sort_key filter_map comp_def)
  have "object_values h = map snd ?xs" by (simp only: object_values_def)
  also have "\<dots> = map (\<lambda>k. the (map_of h k)) (map fst ?xs)" by (rule 1)
  also have "\<dots> = map (\<lambda>k. the (map_of h k)) (key_order (map fst h))" by (simp only: 2)
  finally show ?thesis .
qed

lemma mset_key_order: "mset (key_order ks) = mset ks"
  by (simp add: key_order_def)

lemma set_key_order: "set (key_order ks) = set ks"
  by (auto simp add: key_order_def)

lemma workload_list:
  "map (\<lambda>t. \<lparr>entry_name = name t, hours_per_week = hours t\<rparr>)
       (object_values (hours_by gt key label [] ss))
     = map (workload_of gt key label ss) (key_order (first_seen (map key ss)))"
proof -
  let ?h = "hours_by gt key label [] ss"
  have keys: "map fst ?h = first_seen (map key ss)"
    by (simp add: keys_hours_by)
  then have "distinct (map fst ?h)" by (simp add: distinct_first_seen)
  then have ov: "object_values ?h = map (\<lambda>k. the (map_of ?h k)) (key_order (first_seen (map key ss)))"
    using object_values_distinct [of ?h] keys by simp
  have "\<lparr>entry_name = name (the (map_of ?h k)), hours_per_week = hours (the (map_of ?h k))\<rparr>
          = workload_of gt key label ss k"
    if "k \<in> set (key_order (first_seen (map key ss)))" for k
  proof -
    from that have "k \<in> key ` set ss" by (simp add: set_key_order set_first_seen)
    then have "filter (\<lambda>s. key s = k) ss \<noteq> []" by (auto simp add: filter_empty_conv)
    then obtain r rs where f: "filter (\<lambda>s. key s = k) ss = r # rs" by (cases "filter (\<lambda>s. key s = k) ss") auto
    show ?thesis
      by (simp add: map_of_hours_by workload_of_def f)
  qed
  then show ?thesis by (simp add: ov comp_def)
qed

lemma teacher_workload_list:
  "teacher_workload (getScheduleStatistics gt ss)
     = map (workload_of gt teacher_id teacher_name ss) (key_order (first_seen (map teacher_id ss)))"
  using workload_list [of gt teacher_id teacher_name ss]
  by (simp add: getScheduleStatistics_def Let_def tally_fst)

lemma class_coverage_list:
  "class_coverage (getScheduleStatistics gt ss)
     = map (workload_of gt class_id class_name ss) (key_order (first_seen (map class_id ss)))"
  using workload_list [of gt class_id class_name ss]
  by (simp add: getScheduleStatistics_def Let_def tally_snd)

lemma mset_keys: "mset (key_order (first_seen ks)) = mset_set (set ks)"
proof -
  have "mset (first_seen ks) = mset_set (set (first_seen ks))"
    using distinct_first_seen [of ks] by (simp add: mset_set_set)
  then show ?thesis by (simp add: mset_key_order set_first_seen)
qed

text \<open>
  C1. For every list of records the teacher workload list has, as a multiset, exactly
  one entry for each teacher identifier of the input: the name of the first record
  with that identifier and the sum, taken from the left with the addition of the
  language, of the durations of its records; the class coverage list is the same for
  the class identifiers. Two records of teacher 7, Dupont, of 2 and 1 hours give the
  single entry Dupont, 3.
\<close>

theorem workload_per_id:
  "mset (teacher_workload (getScheduleStatistics gt ss))
     = image_mset (workload_of gt teacher_id teacher_name ss) (mset_set (teacher_id ` set ss))
   \<and> mset (class_coverage (getScheduleStatistics gt ss))
     = image_mset (workload_of gt class_id class_name ss) (mset_set (class_id ` set ss))"
  using mset_keys [of "map teacher_id ss"] mset_keys [of "map class_id ss"]
  by (simp add: teacher_workload_list class_coverage_list)


lemma round_double_small: "round_double 2 = Fin 2" "round_double 3 = Fin 3"
  using round_double_int [of 2] round_double_int [of 3] by simp_all

theorem workload_per_id_witness:
  "teacher_workload (getScheduleStatistics (example_clock 946684800000)
      [taught 7 ''Dupont'' 1 ''6A'' ''08:00'' ''10:00'',
       taught 7 ''Dupont'' 2 ''5B'' ''10:15'' ''11:15''])
     = [\<lparr>entry_name = ''Dupont'', hours_per_week = Fin 3\<rparr>]"
proof -
  let ?gt = "example_clock 946684800000"
  let ?ss = "[taught 7 ''Dupont'' 1 ''6A'' ''08:00'' ''10:00'',
       taught 7 ''Dupont'' 2 ''5B'' ''10:15'' ''11:15'']"
  have w: "workload_of ?gt teacher_id teacher_name ?ss 7
      = \<lparr>entry_name = ''Dupont'', hours_per_week = Fin 3\<rparr>"
    by (simp add: workload_of_def taught_def example_durations round_double_small)
  have "teacher_id ` set ?ss = {7}" by (simp add: taught_def)
  then have "mset (teacher_workload (getScheduleStatistics ?gt ?ss))
      = {#\<lparr>entry_name = ''Dupont'', hours_per_week = Fin 3\<rparr>#}"
    using workload_per_id [of ?gt ?ss] w by simp
  then show ?thesis by (simp add: mset_single_iff_right)
qed

text \<open>
  C2, as the specification states it, fails: with a record of teacher 7 before a
  record of teacher 3, the first appearances are in the order 7, 3, and the list has
  the entry of teacher 3 (Martin) before the entry of teacher 7 (Dupont).
\<close>

theorem workload_order_counterexample:
  "first_seen (map teacher_id
      [taught 7 ''Dupont'' 1 ''6A'' ''08:00'' ''10:00'',
       taught 3 ''Martin'' 2 ''5B'' ''10:15'' ''12:15'']) = [7, 3]
   \<and> map entry_name (teacher_workload (getScheduleStatistics (example_clock 946684800000)
      [taught 7 ''Dupont'' 1 ''6A'' ''08:00'' ''10:00'',
       taught 3 ''Martin'' 2 ''5B'' ''10:15'' ''12:15''])) = [''Martin'', ''Dupont'']"
  by (simp add: teacher_workload_list key_order_def is_array_index_def workload_of_def
      taught_def)

text \<open>
  C2, amended. Both lists follow the order of the own keys of the mapping they are
  read from: first the identifiers that are array indices (from 0 to \<open>2 ^ 32 - 2\<close>)
  in ascending order, then the other identifiers in the order of their first
  appearance in the input.
\<close>

theorem workload_key_order:
  "teacher_workload (getScheduleStatistics gt ss)
     = map (workload_of gt teacher_id teacher_name ss)
         (sort (filter is_array_index (first_seen (map teacher_id ss)))
          @ filter (\<lambda>k. \<not> is_array_index k) (first_seen (map teacher_id ss)))
   \<and> class_coverage (getScheduleStatistics gt ss)
     = map (workload_of gt class_id class_name ss)
         (sort (filter is_array_index (first_seen (map class_id ss)))
          @ filter (\<lambda>k. \<not> is_array_index k) (first_seen (map class_id ss)))"
  by (simp add: teacher_workload_list class_coverage_list key_order_def)

theorem workload_key_order_witness:
  "map entry_name (teacher_workload (getScheduleStatistics (example_clock 946684800000)
      [taught 12 ''Dupont'' 1 ''6A'' ''08:00'' ''10:00'',
       taught (- 1) ''Bernard'' 1 ''6A'' ''14:00'' ''16:00'',
       taught 5 ''Martin'' 2 ''5B'' ''10:15'' ''12:15'',
       taught 12 ''Dupont'' 2 ''5B'' ''16:15'' ''18:15''])) = [''Martin'', ''Dupont'', ''Bernard'']"
  using workload_key_order [of "example_clock 946684800000"
      "[taught 12 ''Dupont'' 1 ''6A'' ''08:00'' ''10:00'',
       taught (- 1) ''Bernard'' 1 ''6A'' ''14:00'' ''16:00'',
       taught 5 ''Martin'' 2 ''5B'' ''10:15'' ''12:15'',
       taught 12 ''Dupont'' 2 ''5B'' ''16:15'' ''18:15'']"]
  by (simp add: is_array_index_def workload_of_def taught_def)

end
